theory Spec2Isabelle
  imports Complex_Main
begin

section \<open>Python strings and library helpers used by \<^verbatim>\<open>scan.py\<close>\<close>

text \<open>
  A string is a list of characters, and a character stands for the code point of the same
  number: the model covers the Python strings whose code points are below 256. On these
  the helpers below follow Python (\<^verbatim>\<open>str.lower\<close>, \<^verbatim>\<open>str.isdigit\<close>, \<^verbatim>\<open>str.split()\<close>,
  \<^verbatim>\<open>int(str)\<close>, \<^verbatim>\<open>str(int)\<close>, and \<^verbatim>\<open>os.path.basename\<close>, \<^verbatim>\<open>os.path.splitext\<close> and
  \<^verbatim>\<open>os.path.join\<close> of \<^verbatim>\<open>posixpath\<close>).
\<close>

datatype py_exception =
    KeyError string
  | ValueError string
  | IndexError
  | EOFError
  | FileNotFoundError string
  | OverflowError string
  | ProbeError string

text \<open>\<^verbatim>\<open>str(e)\<close>: a \<^verbatim>\<open>KeyError\<close> prints the \<^verbatim>\<open>repr\<close> of its key.\<close>

fun str_exception :: "py_exception \<Rightarrow> string" where
  "str_exception (KeyError k) = [CHR 0x27] @ k @ [CHR 0x27]"
| "str_exception (ValueError m) = m"
| "str_exception IndexError = ''list index out of range''"
| "str_exception EOFError = ''EOF when reading a line''"
| "str_exception (FileNotFoundError p) = p"
| "str_exception (OverflowError m) = m"
| "str_exception (ProbeError m) = m"

text \<open>
  The upper-case letters are \<^verbatim>\<open>A\<close> to \<^verbatim>\<open>Z\<close> (65 to 90) and the accented capitals 192 to 222
  without the multiplication sign 215; the lower-case letter is 32 further.
\<close>

definition lower_char :: "char \<Rightarrow> char" where
  "lower_char c =
     (let n = (of_char c :: nat)
      in if (65 \<le> n \<and> n \<le> 90) \<or> (192 \<le> n \<and> n \<le> 222 \<and> n \<noteq> 215)
         then char_of (n + 32)
         else c)"

definition lower :: "string \<Rightarrow> string" where
  "lower s = map lower_char s"

text \<open>The decimal digits, which \<^verbatim>\<open>int\<close> reads.\<close>

definition is_decimal_char :: "char \<Rightarrow> bool" where
  "is_decimal_char c = (c \<in> set ''0123456789'')"

text \<open>
  The characters that \<^verbatim>\<open>str.isdigit\<close> accepts: the decimal digits and the superscript
  digits two, three and one (code points 178, 179 and 185), which \<^verbatim>\<open>int\<close> does not read.
\<close>

definition is_digit_char :: "char \<Rightarrow> bool" where
  "is_digit_char c = (is_decimal_char c \<or> c \<in> set [CHR 0xB2, CHR 0xB3, CHR 0xB9])"

definition isdigit :: "string \<Rightarrow> bool" where
  "isdigit s = (s \<noteq> [] \<and> list_all is_digit_char s)"

text \<open>White space: what \<^verbatim>\<open>str.split()\<close> splits at.\<close>

definition is_space_char :: "char \<Rightarrow> bool" where
  "is_space_char c =
     (c \<in> set [CHR '' '', CHR 0x09, CHR 0x0A, CHR 0x0B, CHR 0x0C, CHR 0x0D,
                 CHR 0x1C, CHR 0x1D, CHR 0x1E, CHR 0x1F, CHR 0x85, CHR 0xA0])"

text \<open>\<^verbatim>\<open>s.split()\<close>: the maximal runs of non-whitespace characters, in order.\<close>

fun split_ws_acc :: "string \<Rightarrow> string \<Rightarrow> string list" where
  "split_ws_acc cur [] = (if cur = [] then [] else [cur])"
| "split_ws_acc cur (c # cs) =
     (if is_space_char c
      then (if cur = [] then split_ws_acc [] cs else cur # split_ws_acc [] cs)
      else split_ws_acc (cur @ [c]) cs)"

definition split_ws :: "string \<Rightarrow> string list" where
  "split_ws s = split_ws_acc [] s"

text \<open>
  What \<^verbatim>\<open>int\<close> strips at both ends of its argument: the white space without the
  separators 28 to 31, on which \<^verbatim>\<open>int\<close> raises.
\<close>

definition is_int_space_char :: "char \<Rightarrow> bool" where
  "is_int_space_char c =
     (c \<in> set [CHR '' '', CHR 0x09, CHR 0x0A, CHR 0x0B, CHR 0x0C, CHR 0x0D, CHR 0x85, CHR 0xA0])"

definition strip :: "string \<Rightarrow> string" where
  "strip s = rev (dropWhile is_int_space_char (rev (dropWhile is_int_space_char s)))"

text \<open>\<^verbatim>\<open>s.split('(')[0]\<close>: the part of \<open>s\<close> before its first opening parenthesis.\<close>

definition before_paren :: "string \<Rightarrow> string" where
  "before_paren s = takeWhile (\<lambda>c. c \<noteq> CHR ''('') s"

definition digit_val :: "char \<Rightarrow> int" where
  "digit_val c =
     (case map_of (zip ''0123456789'' [0, 1, 2, 3, 4, 5, 6, 7, 8, 9]) c of
        Some d \<Rightarrow> d
      | None \<Rightarrow> 0)"

text \<open>
  The digit part of an \<^verbatim>\<open>int\<close> literal: digits, with single underscores allowed
  between two digits.
\<close>

fun digits_ok :: "bool \<Rightarrow> string \<Rightarrow> bool" where
  "digits_ok prev_digit [] = prev_digit"
| "digits_ok prev_digit (c # cs) =
     (if is_decimal_char c then digits_ok True cs
      else if c = CHR ''_'' then prev_digit \<and> digits_ok False cs
      else False)"

definition digits_value :: "string \<Rightarrow> int" where
  "digits_value s = foldl (\<lambda>a c. 10 * a + digit_val c) 0 (filter is_decimal_char s)"

text \<open>\<^verbatim>\<open>int(s)\<close> in base 10; \<open>None\<close> stands for the \<^verbatim>\<open>ValueError\<close> it raises.\<close>

definition py_int :: "string \<Rightarrow> int option" where
  "py_int s =
     (case strip s of
        [] \<Rightarrow> None
      | c # cs \<Rightarrow>
          if c = CHR ''-'' then (if digits_ok False cs then Some (- digits_value cs) else None)
          else if c = CHR ''+'' then (if digits_ok False cs then Some (digits_value cs) else None)
          else (if digits_ok False (c # cs) then Some (digits_value (c # cs)) else None))"

definition int_value_error :: "string \<Rightarrow> py_exception" where
  "int_value_error s =
     ValueError (''invalid literal for int() with base 10: '' @ [CHR 0x27] @ s @ [CHR 0x27])"

definition digit_char :: "nat \<Rightarrow> char" where
  "digit_char d = ''0123456789'' ! d"

function str_nat :: "nat \<Rightarrow> string" where
  "str_nat n = (if n < 10 then [digit_char n] else str_nat (n div 10) @ [digit_char (n mod 10)])"
  by pat_completeness auto
termination
  by (relation "measure id") auto

declare str_nat.simps [simp del]

text \<open>\<^verbatim>\<open>str(i)\<close> of a Python integer, as an f-string renders it.\<close>

definition str_int :: "int \<Rightarrow> string" where
  "str_int i = (if i < 0 then CHR ''-'' # str_nat (nat (- i)) else str_nat (nat i))"

text \<open>\<^verbatim>\<open>os.path.basename\<close>: what follows the last slash.\<close>

definition basename :: "string \<Rightarrow> string" where
  "basename p = rev (takeWhile (\<lambda>c. c \<noteq> CHR ''/'') (rev p))"

text \<open>
  \<^verbatim>\<open>os.path.splitext\<close>: the extension starts at the last dot of the last path
  component, unless only dots precede it in that component.
\<close>

definition splitext :: "string \<Rightarrow> string \<times> string" where
  "splitext p =
     (let name = basename p;
          dir = take (length p - length name) p;
          ext = rev (takeWhile (\<lambda>c. c \<noteq> CHR ''.'') (rev name));
          stem = take (length name - length ext - 1) name
      in if CHR ''.'' \<in> set name \<and> list_ex (\<lambda>c. c \<noteq> CHR ''.'') stem
         then (dir @ stem, CHR ''.'' # ext)
         else (p, []))"

text \<open>\<^verbatim>\<open>os.path.join(a, b)\<close> for a relative second component.\<close>

definition path_join :: "string \<Rightarrow> string \<Rightarrow> string" where
  "path_join a b = (if a = [] \<or> last a = CHR ''/'' then a @ b else a @ ''/'' @ b)"

text \<open>\<^verbatim>\<open>" ".join(xs)\<close>.\<close>

fun join_space :: "string list \<Rightarrow> string" where
  "join_space [] = []"
| "join_space [x] = x"
| "join_space (x # y # ys) = x @ '' '' @ join_space (y # ys)"


section \<open>Probe results and audio tracks\<close>

text \<open>
  The JSON document of the probe, after \<^verbatim>\<open>json.loads\<close>. A key that the source reads
  with \<^verbatim>\<open>d[key]\<close> is an option whose \<open>None\<close> is the missing key (the read raises
  \<^verbatim>\<open>KeyError\<close>); a key read with \<^verbatim>\<open>d.get(key, default)\<close> is an option too.
\<close>

record stream_tags =
  language :: "string option"
  title :: "string option"

record stream =
  index :: "int option"
  codec_type :: "string option"
  codec_name :: "string option"
  channels :: "int option"
  sample_rate :: "string option"
  bit_rate :: "string option"
  tags :: "stream_tags option"

text \<open>
  \<open>duration\<close> is the outcome of \<^verbatim>\<open>float(info['format']['duration'])\<close>: the float, as the
  real number it denotes, or the exception the expression raises.
\<close>

record probe_info =
  streams :: "stream list option"
  duration :: "py_exception + real"

text \<open>
  The probe itself (\<^verbatim>\<open>subprocess.check_output\<close> of \<^verbatim>\<open>ffprobe\<close>, then \<^verbatim>\<open>json.loads\<close>)
  is external: a function from the file path to the parsed document or to the exception
  raised.
\<close>

type_synonym probe = "string \<Rightarrow> py_exception + probe_info"

record args =
  movie_files :: "string list"
  exclude_same :: bool
  only_same :: bool
  track_number :: "int option"
  no_unknown :: bool
  only_unknown :: bool
  foreign_only :: bool

text \<open>The dictionary appended to \<^verbatim>\<open>audio_tracks\<close>.\<close>

record audio_track =
  File :: string
  FullFilePath :: string
  Track :: int
  Language :: string
  Format :: string
  Channels :: int
  Bitrate :: string
  Title :: string
  Size :: string

text \<open>\<^verbatim>\<open>stream.get('tags', {}).get('language', default)\<close>\<close>

definition tag_language :: "string \<Rightarrow> stream \<Rightarrow> string" where
  "tag_language dflt s =
     (case tags s of
        None \<Rightarrow> dflt
      | Some t \<Rightarrow> (case language t of None \<Rightarrow> dflt | Some l \<Rightarrow> l))"

definition tag_title :: "string \<Rightarrow> stream \<Rightarrow> string" where
  "tag_title dflt s =
     (case tags s of
        None \<Rightarrow> dflt
      | Some t \<Rightarrow> (case title t of None \<Rightarrow> dflt | Some l \<Rightarrow> l))"

text \<open>The audio streams of a document, line 50.\<close>

fun audio_only :: "stream list \<Rightarrow> py_exception + stream list" where
  "audio_only [] = Inr []"
| "audio_only (s # ss) =
     (case codec_type s of
        None \<Rightarrow> Inl (KeyError ''codec_type'')
      | Some ct \<Rightarrow>
          (case audio_only ss of
             Inl e \<Rightarrow> Inl e
           | Inr r \<Rightarrow> Inr (if ct = ''audio'' then s # r else r)))"

text \<open>The classification of a file, lines 53 and 58 to 60.\<close>

definition has_exact_eng_track :: "stream list \<Rightarrow> bool" where
  "has_exact_eng_track audio_streams =
     list_ex (\<lambda>s. tag_language [] s = ''eng'') audio_streams"

definition has_eng_track :: "stream list \<Rightarrow> bool" where
  "has_eng_track audio_streams =
     list_ex (\<lambda>s. lower (tag_language [] s) = ''eng'') audio_streams"

definition has_another_language :: "stream list \<Rightarrow> bool" where
  "has_another_language audio_streams =
     list_ex (\<lambda>s. lower (tag_language [] s) \<notin> set [''unknown'', ''eng'']) audio_streams"

definition all_same_language :: "stream list \<Rightarrow> bool" where
  "all_same_language audio_streams =
     (card (set (map (\<lambda>s. lower (tag_language [] s)) audio_streams)) = 1)"

text \<open>Bitrate and its rendering, lines 81 to 89.\<close>

definition bitrate_of :: "stream \<Rightarrow> string \<Rightarrow> int \<Rightarrow> int \<Rightarrow> py_exception + (int option \<times> string)" where
  "bitrate_of s codec ch sr =
     (case bit_rate s of
        Some b \<Rightarrow>
          (case py_int b of
             None \<Rightarrow> Inl (int_value_error b)
           | Some bitrate \<Rightarrow> Inr (Some bitrate, str_int (bitrate div 1000) @ '' Kbps''))
      | None \<Rightarrow>
          if lower codec = ''aac''
          then Inr (Some (ch * sr), ''~'' @ str_int ((ch * sr) div 1000) @ '' Kbps'')
          else Inr (None, ''N/A''))"

text \<open>
  Line 94 computes \<^verbatim>\<open>(bitrate * file_duration) / (8 * 1024 * 1024)\<close> in floating point and
  line 95 renders the result with \<^verbatim>\<open>:.2f\<close>. The floating-point arithmetic and the rendering
  are Python's own and are not defined here: they are a function from the bitrate and the
  duration to the text of the number, or to the exception raised (\<^verbatim>\<open>OverflowError\<close> for an
  integer too large for a float), which the functions below take as a parameter.
\<close>

type_synonym size_format = "int \<Rightarrow> real \<Rightarrow> py_exception + string"

text \<open>
  The text of the track size, lines 93 to 97; \<^verbatim>\<open>if bitrate:\<close> is false for \<^verbatim>\<open>None\<close> and
  for 0.
\<close>

definition track_size_str :: "size_format \<Rightarrow> int option \<Rightarrow> real \<Rightarrow> py_exception + string" where
  "track_size_str fmt bitrate file_duration =
     (case bitrate of
        None \<Rightarrow> Inr ''N/A''
      | Some b \<Rightarrow>
          if b \<noteq> 0
          then (case fmt b file_duration of Inl e \<Rightarrow> Inl e | Inr x \<Rightarrow> Inr (x @ '' MB''))
          else Inr ''N/A'')"

text \<open>
  The body of the loop over the audio streams of one file, lines 69 to 110:
  \<open>Inr None\<close> when the stream is passed over by \<^verbatim>\<open>continue\<close>.
\<close>

definition audio_stream_track ::
  "size_format \<Rightarrow> args \<Rightarrow> string \<Rightarrow> real \<Rightarrow> stream \<Rightarrow> py_exception + audio_track option" where
  "audio_stream_track fmt a movie_file file_duration s =
     (let lang = tag_language ''unknown'' s;
          ttl = tag_title [] s
      in if no_unknown a \<and> lower lang = ''unknown'' then Inr None
         else if only_unknown a \<and> lower lang \<noteq> ''unknown'' then Inr None
         else
           case codec_name s of
             None \<Rightarrow> Inl (KeyError ''codec_name'')
           | Some codec \<Rightarrow>
           case channels s of
             None \<Rightarrow> Inl (KeyError ''channels'')
           | Some ch \<Rightarrow>
           case sample_rate s of
             None \<Rightarrow> Inl (KeyError ''sample_rate'')
           | Some srs \<Rightarrow>
           case py_int srs of
             None \<Rightarrow> Inl (int_value_error srs)
           | Some sr \<Rightarrow>
           case bitrate_of s codec ch sr of
             Inl e \<Rightarrow> Inl e
           | Inr (bitrate, bitrate_str) \<Rightarrow>
           case track_size_str fmt bitrate file_duration of
             Inl e \<Rightarrow> Inl e
           | Inr size_str \<Rightarrow>
           case index s of
             None \<Rightarrow> Inl (KeyError ''index'')
           | Some i \<Rightarrow>
               Inr (Some \<lparr>File = movie_file, FullFilePath = movie_file, Track = i,
                          Language = lang, Format = codec, Channels = ch,
                          Bitrate = bitrate_str, Title = take 40 ttl,
                          Size = size_str\<rparr>))"

text \<open>
  The loop over the audio streams: an exception leaves the loop, and the tracks
  appended before it stay in the list.
\<close>

fun stream_loop ::
  "size_format \<Rightarrow> args \<Rightarrow> string \<Rightarrow> real \<Rightarrow> stream list \<Rightarrow> audio_track list
     \<Rightarrow> audio_track list \<times> py_exception option" where
  "stream_loop fmt a movie_file file_duration [] audio_tracks = (audio_tracks, None)"
| "stream_loop fmt a movie_file file_duration (s # ss) audio_tracks =
     (case audio_stream_track fmt a movie_file file_duration s of
        Inl e \<Rightarrow> (audio_tracks, Some e)
      | Inr None \<Rightarrow> stream_loop fmt a movie_file file_duration ss audio_tracks
      | Inr (Some t) \<Rightarrow> stream_loop fmt a movie_file file_duration ss (audio_tracks @ [t]))"

text \<open>The \<^verbatim>\<open>try\<close> block for one file, lines 46 to 110.\<close>

definition process_file ::
  "size_format \<Rightarrow> probe \<Rightarrow> args \<Rightarrow> string \<Rightarrow> audio_track list
     \<Rightarrow> audio_track list \<times> py_exception option" where
  "process_file fmt prb a movie_file audio_tracks =
     (case prb movie_file of
        Inl e \<Rightarrow> (audio_tracks, Some e)
      | Inr info \<Rightarrow>
      case streams info of
        None \<Rightarrow> (audio_tracks, Some (KeyError ''streams''))
      | Some all_streams \<Rightarrow>
      case audio_only all_streams of
        Inl e \<Rightarrow> (audio_tracks, Some e)
      | Inr audio_streams \<Rightarrow>
      case duration info of
        Inl e \<Rightarrow> (audio_tracks, Some e)
      | Inr file_duration \<Rightarrow>
          if foreign_only a \<and> has_exact_eng_track audio_streams then (audio_tracks, None)
          else if (case track_number a of
                     None \<Rightarrow> True
                   | Some n \<Rightarrow> int (length audio_streams) \<ge> n)
          then
            if exclude_same a \<and> all_same_language audio_streams then (audio_tracks, None)
            else if only_same a \<and> \<not> all_same_language audio_streams then (audio_tracks, None)
            else if \<not> foreign_only a
                    \<or> (\<not> has_eng_track audio_streams \<and> has_another_language audio_streams)
            then stream_loop fmt a movie_file file_duration audio_streams audio_tracks
            else (audio_tracks, None)
          else (audio_tracks, None))"

text \<open>Line 112.\<close>

definition error_line :: "string \<Rightarrow> py_exception \<Rightarrow> string" where
  "error_line movie_file e = ''Error processing '' @ movie_file @ '': '' @ str_exception e"

text \<open>The loop over the files, lines 44 to 112, on the pair of lists it fills.\<close>

fun files_loop ::
  "size_format \<Rightarrow> probe \<Rightarrow> args \<Rightarrow> string list \<Rightarrow> audio_track list \<times> string list
     \<Rightarrow> audio_track list \<times> string list" where
  "files_loop fmt prb a [] st = st"
| "files_loop fmt prb a (movie_file # rest) (audio_tracks, errors) =
     (case process_file fmt prb a movie_file audio_tracks of
        (audio_tracks', None) \<Rightarrow> files_loop fmt prb a rest (audio_tracks', errors)
      | (audio_tracks', Some e) \<Rightarrow>
          files_loop fmt prb a rest (audio_tracks', errors @ [error_line movie_file e]))"

text \<open>
  The pair of lists that \<^verbatim>\<open>get_audio_track_info\<close> builds and returns. Printing the errors
  under \<^verbatim>\<open>show_errors\<close> does not change them; the call of \<^verbatim>\<open>TMDB_pull_language\<close> under
  \<^verbatim>\<open>work\<close>, which reads them without changing them, is modelled apart
  (\<open>tmdb_delete_track\<close> below).
\<close>

definition get_audio_track_info ::
  "size_format \<Rightarrow> probe \<Rightarrow> args \<Rightarrow> audio_track list \<times> string list" where
  "get_audio_track_info fmt prb a = files_loop fmt prb a (movie_files a) ([], [])"


section \<open>Files on disk, the remux tool, console\<close>

text \<open>
  The file system maps a path to the size in bytes of the file there. The remux tool is
  external: given the command line and the file system it returns its exit status and the
  file system it leaves. \<^verbatim>\<open>os.path.getsize\<close>, \<^verbatim>\<open>os.remove\<close> and \<^verbatim>\<open>os.rename\<close> raise on a
  missing file.
\<close>

type_synonym filesystem = "string \<rightharpoonup> nat"

type_synonym remux = "string \<Rightarrow> filesystem \<Rightarrow> int \<times> filesystem"

definition getsize :: "filesystem \<Rightarrow> string \<Rightarrow> py_exception + int" where
  "getsize fs p = (case fs p of None \<Rightarrow> Inl (FileNotFoundError p) | Some n \<Rightarrow> Inr (int n))"

definition os_remove :: "filesystem \<Rightarrow> string \<Rightarrow> py_exception + filesystem" where
  "os_remove fs p = (case fs p of None \<Rightarrow> Inl (FileNotFoundError p) | Some n \<Rightarrow> Inr (fs(p := None)))"

definition os_rename :: "filesystem \<Rightarrow> string \<Rightarrow> string \<Rightarrow> py_exception + filesystem" where
  "os_rename fs src dst =
     (case fs src of
        None \<Rightarrow> Inl (FileNotFoundError src)
      | Some n \<Rightarrow> Inr ((fs(src := None))(dst \<mapsto> n)))"

record file_summary =
  file_name :: string
  original_language :: "string option"
  tracks_to_delete :: "string list"
  tracks_to_keep :: "string list"

text \<open>What the functions print, with the numbers before their rendering.\<close>

datatype event =
    PlanShown int file_summary
  | NoModifications
  | Applying string
  | DeletingTracks
  | Executing string
  | DeletedSuccessfully int
  | ErrorSkippingFile string
  | SkippingModifications string
  | TableShown
  | InvalidInput
  | FileSkipped
  | TotalSpaceSaved int
  | Done

text \<open>
  The state threaded through a deletion run: the disk, \<^verbatim>\<open>total_space_saved\<close>, the lines
  still to be read by \<^verbatim>\<open>input()\<close>, what was printed, and the exception that ended the
  run, if one did.
\<close>

record run_state =
  files :: filesystem
  total_space_saved :: int
  stdin :: "string list"
  printed :: "event list"
  raised :: "py_exception option"

definition emit :: "event list \<Rightarrow> run_state \<Rightarrow> run_state" where
  "emit evs st = st\<lparr>printed := printed st @ evs\<rparr>"

definition raise :: "py_exception \<Rightarrow> run_state \<Rightarrow> run_state" where
  "raise e st = st\<lparr>raised := Some e\<rparr>"

definition dq :: string where
  "dq = [CHR 0x22]"

text \<open>Lines 218 and 401.\<close>

definition temp_output_file_path :: "string \<Rightarrow> string" where
  "temp_output_file_path input_file_path =
     fst (splitext input_file_path) @ ''_temp'' @ snd (splitext input_file_path)"

text \<open>Lines 221 to 222 and 404 to 405.\<close>

definition ffmpeg_command :: "string \<Rightarrow> string \<Rightarrow> string \<Rightarrow> string \<Rightarrow> string" where
  "ffmpeg_command ffmpeg_folder input_file_path map_options temp_path =
     dq @ path_join ffmpeg_folder ''ffmpeg'' @ dq @ '' -i '' @ dq @ input_file_path @ dq
       @ '' -map 0 '' @ map_options @ '' -c copy '' @ dq @ temp_path @ dq"

section \<open>Metadata-driven deletion: \<^verbatim>\<open>tmdb_delete_track\<close>\<close>

text \<open>
  An entry of \<^verbatim>\<open>movie_data_list\<close>. The caller sets the key \<^verbatim>\<open>original_language\<close> only
  when the base name carries an identifier, and its value is \<^verbatim>\<open>None\<close> when the language
  was not resolved: the outer option is the key, the inner one the value.
\<close>

record movie_data =
  md_File :: string
  md_FullFilePath :: string
  md_original_language :: "string option option"

text \<open>\<^verbatim>\<open>f"{track['Track']}({track['Language']})"\<close>\<close>

definition track_label :: "audio_track \<Rightarrow> string" where
  "track_label t = str_int (Track t) @ ''('' @ Language t @ '')''"

text \<open>Lines 181 to 185.\<close>

fun partition_tracks ::
  "string option \<Rightarrow> audio_track list \<Rightarrow> string list \<times> string list \<Rightarrow> string list \<times> string list" where
  "partition_tracks ol [] acc = acc"
| "partition_tracks ol (t # ts) (to_delete, to_keep) =
     (if Some (Language t) \<noteq> ol
      then partition_tracks ol ts (to_delete @ [track_label t], to_keep)
      else partition_tracks ol ts (to_delete, to_keep @ [track_label t]))"

text \<open>The planning loop, lines 172 to 194.\<close>

fun plan_loop ::
  "audio_track list \<Rightarrow> movie_data list \<Rightarrow> file_summary list \<Rightarrow> py_exception + file_summary list" where
  "plan_loop audio_tracks [] summaries = Inr summaries"
| "plan_loop audio_tracks (md # mds) summaries =
     (case md_original_language md of
        None \<Rightarrow> Inl (KeyError ''original_language'')
      | Some ol \<Rightarrow>
          (let file_audio_tracks = filter (\<lambda>t. File t = md_FullFilePath md) audio_tracks;
               (to_delete, to_keep) = partition_tracks ol file_audio_tracks ([], [])
           in if to_keep \<noteq> []
              then plan_loop audio_tracks mds
                     (summaries @ [\<lparr>file_name = md_File md, original_language = ol,
                                    tracks_to_delete = to_delete, tracks_to_keep = to_keep\<rparr>])
              else plan_loop audio_tracks mds summaries))"

text \<open>Line 208: the numbers of the plans to skip.\<close>

fun parse_ints :: "string list \<Rightarrow> py_exception + int list" where
  "parse_ints [] = Inr []"
| "parse_ints (w # ws) =
     (case py_int w of
        None \<Rightarrow> Inl (int_value_error w)
      | Some n \<Rightarrow> (case parse_ints ws of Inl e \<Rightarrow> Inl e | Inr ns \<Rightarrow> Inr (n # ns)))"

text \<open>Line 220: one exclusion per entry of \<^verbatim>\<open>tracks_to_delete\<close>.\<close>

fun tmdb_map_parts :: "string list \<Rightarrow> py_exception + string list" where
  "tmdb_map_parts [] = Inr []"
| "tmdb_map_parts (track # rest) =
     (case py_int (before_paren track) of
        None \<Rightarrow> Inl (int_value_error (before_paren track))
      | Some n \<Rightarrow>
          (case tmdb_map_parts rest of
             Inl e \<Rightarrow> Inl e
           | Inr parts \<Rightarrow> Inr ((''-map -0:a:'' @ str_int (n - 1)) # parts)))"

text \<open>Lines 227 to 241: the remux, the sizes, then the replacement.\<close>

definition tmdb_run_remux :: "remux \<Rightarrow> string \<Rightarrow> string \<Rightarrow> string \<Rightarrow> string \<Rightarrow> run_state \<Rightarrow> run_state" where
  "tmdb_run_remux rmx summary_name ffmpeg_cmd input_file_path temp_path st =
     (let (returncode, fs1) = rmx ffmpeg_cmd (files st);
          st1 = st\<lparr>files := fs1\<rparr>
      in case getsize fs1 input_file_path of
           Inl e \<Rightarrow> raise e st1
         | Inr initial_size \<Rightarrow>
         case getsize fs1 temp_path of
           Inl e \<Rightarrow> raise e st1
         | Inr final_size \<Rightarrow>
             (let space_saved = initial_size - final_size;
                  st2 = emit [DeletedSuccessfully space_saved]
                          (st1\<lparr>total_space_saved := total_space_saved st1 + space_saved\<rparr>)
              in if returncode = 0
                 then (case os_remove fs1 input_file_path of
                         Inl e \<Rightarrow> raise e st2
                       | Inr fs2 \<Rightarrow>
                           (case os_rename fs2 temp_path input_file_path of
                              Inl e \<Rightarrow> raise e (st2\<lparr>files := fs2\<rparr>)
                            | Inr fs3 \<Rightarrow> st2\<lparr>files := fs3\<rparr>))
                 else (let st3 = emit [ErrorSkippingFile summary_name] st2
                       in case os_remove fs1 temp_path of
                            Inl e \<Rightarrow> raise e st3
                          | Inr fs2 \<Rightarrow> st3\<lparr>files := fs2\<rparr>)))"

text \<open>Lines 212 to 241: one plan that is not skipped.\<close>

definition tmdb_apply_summary ::
  "remux \<Rightarrow> string \<Rightarrow> audio_track list \<Rightarrow> file_summary \<Rightarrow> run_state \<Rightarrow> run_state" where
  "tmdb_apply_summary rmx ffmpeg_folder audio_tracks summary st =
     (let st1 = emit [Applying (file_name summary)] st;
          file_audio_tracks =
            filter (\<lambda>t. basename (File t) = file_name summary) audio_tracks
      in case file_audio_tracks of
           [] \<Rightarrow> raise IndexError st1
         | t0 # _ \<Rightarrow>
             (let input_file_path = FullFilePath t0;
                  temp_path = temp_output_file_path input_file_path
              in case tmdb_map_parts (tracks_to_delete summary) of
                   Inl e \<Rightarrow> raise e st1
                 | Inr parts \<Rightarrow>
                     (let ffmpeg_cmd =
                            ffmpeg_command ffmpeg_folder input_file_path (join_space parts) temp_path;
                          st2 = emit [DeletingTracks, Executing ffmpeg_cmd] st1
                      in tmdb_run_remux rmx (file_name summary) ffmpeg_cmd
                           input_file_path temp_path st2)))"

text \<open>The loop of lines 210 to 244; an exception ends it.\<close>

fun tmdb_apply_loop ::
  "remux \<Rightarrow> string \<Rightarrow> audio_track list \<Rightarrow> int list \<Rightarrow> int \<Rightarrow> file_summary list
     \<Rightarrow> run_state \<Rightarrow> run_state" where
  "tmdb_apply_loop rmx ffmpeg_folder audio_tracks skipped_files i [] st = st"
| "tmdb_apply_loop rmx ffmpeg_folder audio_tracks skipped_files i (summary # rest) st =
     (if i \<notin> set skipped_files
      then (let st1 = tmdb_apply_summary rmx ffmpeg_folder audio_tracks summary st
            in if raised st1 = None
               then tmdb_apply_loop rmx ffmpeg_folder audio_tracks skipped_files (i + 1) rest st1
               else st1)
      else tmdb_apply_loop rmx ffmpeg_folder audio_tracks skipped_files (i + 1) rest
             (emit [SkippingModifications (file_name summary)] st))"

fun enumerate_from :: "int \<Rightarrow> 'a list \<Rightarrow> (int \<times> 'a) list" where
  "enumerate_from i [] = []"
| "enumerate_from i (x # xs) = (i, x) # enumerate_from (i + 1) xs"

definition tmdb_delete_track ::
  "remux \<Rightarrow> movie_data list \<Rightarrow> audio_track list \<Rightarrow> string \<Rightarrow> run_state \<Rightarrow> run_state" where
  "tmdb_delete_track rmx movie_data_list audio_tracks ffmpeg_folder st =
     (case plan_loop audio_tracks movie_data_list [] of
        Inl e \<Rightarrow> raise e st
      | Inr file_summaries \<Rightarrow>
          (let st1 = emit (map (\<lambda>(i, s). PlanShown i s) (enumerate_from 1 file_summaries)) st
           in case stdin st1 of
                [] \<Rightarrow> raise EOFError st1
              | action # remaining \<Rightarrow>
                  (let st2 = st1\<lparr>stdin := remaining\<rparr>
                   in if lower action = ''n'' then emit [NoModifications] st2
                      else
                        case (if lower action \<noteq> ''y'' then parse_ints (split_ws action)
                              else Inr []) of
                          Inl e \<Rightarrow> raise e st2
                        | Inr skipped_files \<Rightarrow>
                            (let st3 = tmdb_apply_loop rmx ffmpeg_folder audio_tracks
                                         skipped_files 1 file_summaries st2
                             in if raised st3 = None
                                then emit [TotalSpaceSaved (total_space_saved st3), Done] st3
                                else st3))))"


section \<open>Manual deletion: \<^verbatim>\<open>delete_tracks_from_files\<close>\<close>

text \<open>
  Line 391, the test that ends the prompt loop. \<^verbatim>\<open>all\<close> goes through the tokens in order and
  stops at the first one that is not a valid track number; \<^verbatim>\<open>int\<close> is called on every token
  that \<^verbatim>\<open>isdigit\<close> accepts and raises on the ones it cannot read. Only when \<^verbatim>\<open>all\<close> has
  returned false is the token \<^verbatim>\<open>s\<close> looked for.
\<close>

fun all_valid_tracks :: "int list \<Rightarrow> string list \<Rightarrow> py_exception + bool" where
  "all_valid_tracks valid_tracks [] = Inr True"
| "all_valid_tracks valid_tracks (track # rest) =
     (if isdigit track
      then (case py_int track of
              None \<Rightarrow> Inl (int_value_error track)
            | Some n \<Rightarrow>
                if n \<in> set valid_tracks then all_valid_tracks valid_tracks rest else Inr False)
      else Inr False)"

definition valid_selection :: "int list \<Rightarrow> string list \<Rightarrow> py_exception + bool" where
  "valid_selection valid_tracks selected =
     (case all_valid_tracks valid_tracks selected of
        Inl e \<Rightarrow> Inl e
      | Inr all_ok \<Rightarrow> Inr (all_ok \<or> ''s'' \<in> set selected))"

text \<open>
  The prompt loop, lines 369 to 394, on the lines that \<^verbatim>\<open>input()\<close> still has to read:
  the selection (or the exception: \<^verbatim>\<open>EOFError\<close> at the end of the input, \<^verbatim>\<open>ValueError\<close> from
  the test), the lines left, and what was printed.
\<close>

fun read_selection ::
  "int list \<Rightarrow> string list \<Rightarrow> event list \<Rightarrow> (py_exception + string list) \<times> string list \<times> event list" where
  "read_selection valid_tracks [] out = (Inl EOFError, [], out @ [TableShown])"
| "read_selection valid_tracks (line # rest) out =
     (let selected = split_ws line
      in case valid_selection valid_tracks selected of
           Inl e \<Rightarrow> (Inl e, rest, out @ [TableShown])
         | Inr ok \<Rightarrow>
             if ok then (Inr selected, rest, out @ [TableShown])
             else read_selection valid_tracks rest (out @ [TableShown, InvalidInput]))"

text \<open>Line 403: one exclusion per selected token.\<close>

fun manual_map_parts :: "string list \<Rightarrow> py_exception + string list" where
  "manual_map_parts [] = Inr []"
| "manual_map_parts (track # rest) =
     (case py_int track of
        None \<Rightarrow> Inl (int_value_error track)
      | Some n \<Rightarrow>
          (case manual_map_parts rest of
             Inl e \<Rightarrow> Inl e
           | Inr parts \<Rightarrow> Inr ((''-map -0:a:'' @ str_int (n - 1)) # parts)))"

text \<open>Lines 410 to 421: the remux, the sizes, then the replacement.\<close>

definition manual_run_remux :: "remux \<Rightarrow> string \<Rightarrow> string \<Rightarrow> string \<Rightarrow> run_state \<Rightarrow> run_state" where
  "manual_run_remux rmx ffmpeg_cmd input_file_path temp_path st =
     (let (returncode, fs1) = rmx ffmpeg_cmd (files st);
          st1 = st\<lparr>files := fs1\<rparr>
      in case getsize fs1 input_file_path of
           Inl e \<Rightarrow> raise e st1
         | Inr initial_size \<Rightarrow>
         case getsize fs1 temp_path of
           Inl e \<Rightarrow> raise e st1
         | Inr final_size \<Rightarrow>
             (let space_saved = initial_size - final_size;
                  st2 = emit [DeletedSuccessfully space_saved]
                          (st1\<lparr>total_space_saved := total_space_saved st1 + space_saved\<rparr>)
              in case os_remove fs1 input_file_path of
                   Inl e \<Rightarrow> raise e st2
                 | Inr fs2 \<Rightarrow>
                     (case os_rename fs2 temp_path input_file_path of
                        Inl e \<Rightarrow> raise e (st2\<lparr>files := fs2\<rparr>)
                      | Inr fs3 \<Rightarrow> st2\<lparr>files := fs3\<rparr>)))"

text \<open>Lines 400 to 421: one file whose selection does not contain \<^verbatim>\<open>s\<close>.\<close>

definition manual_apply ::
  "remux \<Rightarrow> string \<Rightarrow> audio_track list \<Rightarrow> string list \<Rightarrow> run_state \<Rightarrow> run_state" where
  "manual_apply rmx ffmpeg_folder file_audio_tracks selected st =
     (case file_audio_tracks of
        [] \<Rightarrow> raise IndexError st
      | t0 # _ \<Rightarrow>
          (let input_file_path = FullFilePath t0;
               temp_path = temp_output_file_path input_file_path
           in case manual_map_parts selected of
                Inl e \<Rightarrow> raise e st
              | Inr parts \<Rightarrow>
                  (let ffmpeg_cmd =
                         ffmpeg_command ffmpeg_folder input_file_path (join_space parts) temp_path;
                       st1 = emit [DeletingTracks, Executing ffmpeg_cmd] st
                   in manual_run_remux rmx ffmpeg_cmd input_file_path temp_path st1)))"

text \<open>
  The loop over the files, lines 368 to 429, on the items of the dictionary in insertion
  order; \<open>n\<close> is \<^verbatim>\<open>len(audio_tracks)\<close> and \<open>idx\<close> the position of the first item left.
\<close>

fun manual_loop ::
  "remux \<Rightarrow> string \<Rightarrow> int \<Rightarrow> int \<Rightarrow> (string \<times> audio_track list) list \<Rightarrow> run_state \<Rightarrow> run_state" where
  "manual_loop rmx ffmpeg_folder n idx [] st = st"
| "manual_loop rmx ffmpeg_folder n idx ((file_key, file_audio_tracks) # rest) st =
     (case read_selection (map Track file_audio_tracks) (stdin st) [] of
        (Inl e, remaining, out) \<Rightarrow> raise e (emit out (st\<lparr>stdin := remaining\<rparr>))
      | (Inr selected, remaining, out) \<Rightarrow>
          (let st1 = emit out (st\<lparr>stdin := remaining\<rparr>)
           in if ''s'' \<in> set selected
              then manual_loop rmx ffmpeg_folder n (idx + 1) rest (emit [FileSkipped] st1)
              else
                (let st2 = manual_apply rmx ffmpeg_folder file_audio_tracks selected st1
                 in if raised st2 \<noteq> None then st2
                    else if idx = n - 1 then st2
                    else
                      (case stdin st2 of
                         [] \<Rightarrow> raise EOFError st2
                       | proceed # remaining2 \<Rightarrow>
                           if lower proceed = ''n'' then st2\<lparr>stdin := remaining2\<rparr>
                           else manual_loop rmx ffmpeg_folder n (idx + 1) rest
                                  (st2\<lparr>stdin := remaining2\<rparr>)))))"

definition delete_tracks_from_files ::
  "remux \<Rightarrow> (string \<times> audio_track list) list \<Rightarrow> string \<Rightarrow> run_state \<Rightarrow> run_state" where
  "delete_tracks_from_files rmx audio_tracks ffmpeg_folder st =
     (let st1 = manual_loop rmx ffmpeg_folder (int (length audio_tracks)) 0 audio_tracks st
      in if raised st1 = None
         then emit [TotalSpaceSaved (total_space_saved st1)] st1
         else st1)"


section \<open>Notions of the specification used to state the claims\<close>

text \<open>
  The language code of the specification's data model: the \<^verbatim>\<open>language\<close> tag in lower
  case, \<^verbatim>\<open>"unknown"\<close> when the tag is absent.
\<close>

definition spec_language_code :: "stream \<Rightarrow> string" where
  "spec_language_code s = lower (tag_language ''unknown'' s)"

text \<open>
  The ordinal of a track as the specification addresses it: the 0-based position, in the
  list of the audio streams of the file, of the stream with the given container index.
\<close>

fun position_of_index :: "int \<Rightarrow> nat \<Rightarrow> stream list \<Rightarrow> nat option" where
  "position_of_index i k [] = None"
| "position_of_index i k (s # ss) =
     (if index s = Some i then Some k else position_of_index i (Suc k) ss)"

definition spec_audio_ordinal :: "stream list \<Rightarrow> int \<Rightarrow> nat option" where
  "spec_audio_ordinal all_streams i =
     position_of_index i 0 (filter (\<lambda>s. codec_type s = Some ''audio'') all_streams)"

section \<open>Example inputs\<close>

definition ex_video :: stream where
  "ex_video = \<lparr>index = Some 0, codec_type = Some ''video'', codec_name = Some ''h264'',
                channels = None, sample_rate = None, bit_rate = None, tags = None\<rparr>"

definition ex_subtitle :: stream where
  "ex_subtitle = \<lparr>index = Some 1, codec_type = Some ''subtitle'', codec_name = Some ''subrip'',
                   channels = None, sample_rate = None, bit_rate = None,
                   tags = Some \<lparr>language = Some ''eng'', title = None\<rparr>\<rparr>"

definition ex_audio :: "int \<Rightarrow> string \<Rightarrow> string option \<Rightarrow> string option \<Rightarrow> stream" where
  "ex_audio i codec rate lang =
     \<lparr>index = Some i, codec_type = Some ''audio'', codec_name = Some codec,
      channels = Some 2, sample_rate = Some ''48000'', bit_rate = rate,
      tags = (case lang of None \<Rightarrow> None | Some l \<Rightarrow> Some \<lparr>language = Some l, title = None\<rparr>)\<rparr>"

text \<open>
  Five files: French and upper-case English audio behind the video; a file whose probe
  fails; German audio; an untagged track with a declared bit rate of 0 next to a track
  tagged \<^verbatim>\<open>unknown\<close>; and a file whose audio streams follow a video and a subtitle stream.
\<close>

definition ex_streams_a :: "stream list" where
  "ex_streams_a = [ex_video, ex_audio 1 ''aac'' None (Some ''fre''),
                   ex_audio 2 ''ac3'' (Some ''640000'') (Some ''ENG'')]"

definition ex_streams_c :: "stream list" where
  "ex_streams_c = [ex_video, ex_audio 1 ''dts'' None (Some ''ger'')]"

definition ex_streams_u :: "stream list" where
  "ex_streams_u = [ex_audio 0 ''mp3'' (Some ''0'') None,
                   ex_audio 1 ''flac'' None (Some ''unknown'')]"

definition ex_streams_d :: "stream list" where
  "ex_streams_d = [ex_video, ex_subtitle, ex_audio 2 ''aac'' None (Some ''fre''),
                   ex_audio 3 ''aac'' None (Some ''eng'')]"

text \<open>A file whose second audio stream lacks the channel count.\<close>

definition ex_streams_p :: "stream list" where
  "ex_streams_p = [ex_audio 0 ''aac'' None (Some ''eng''),
                   (ex_audio 1 ''aac'' None (Some ''fre''))\<lparr>channels := None\<rparr>]"

definition ex_probe :: probe where
  "ex_probe p =
     (if p = ''/m/a.mkv'' then Inr \<lparr>streams = Some ex_streams_a, duration = Inr 3600\<rparr>
      else if p = ''/m/p.mkv'' then Inr \<lparr>streams = Some ex_streams_p, duration = Inr 60\<rparr>
      else if p = ''/m/c.mkv'' then Inr \<lparr>streams = Some ex_streams_c, duration = Inr 60\<rparr>
      else if p = ''/m/u.mkv'' then Inr \<lparr>streams = Some ex_streams_u, duration = Inr 60\<rparr>
      else if p = ''/m/d {tmdb-603}.mkv''
        then Inr \<lparr>streams = Some ex_streams_d, duration = Inr 60\<rparr>
      else Inl (ProbeError ''ffprobe returned non-zero exit status 1''))"

definition ex_args :: "string list \<Rightarrow> args" where
  "ex_args fs = \<lparr>movie_files = fs, exclude_same = False, only_same = False,
                 track_number = None, no_unknown = False, only_unknown = False,
                 foreign_only = False\<rparr>"

text \<open>
  A size format for the examples: exact arithmetic, the result rounded to two decimals.
  For the operands of the examples, none of them negative, it gives the text that Python
  gives: \<^verbatim>\<open>41.20\<close> for 96000 and 3600, \<^verbatim>\<open>274.66\<close> for 640000 and 3600, \<^verbatim>\<open>0.69\<close> for 96000
  and 60, \<^verbatim>\<open>0.00\<close> for 1000 and 1 and for 2000 and 1.
\<close>

definition two_decimals :: "real \<Rightarrow> string" where
  "two_decimals x =
     (let c = \<lfloor>x * 100 + 1 / 2\<rfloor>
      in str_int (c div 100) @ ''.''
           @ [digit_char (nat ((c mod 100) div 10)), digit_char (nat (c mod 10))])"

definition ex_size_format :: size_format where
  "ex_size_format bitrate file_duration =
     Inr (two_decimals ((real_of_int bitrate * file_duration) / (8 * 1024 * 1024)))"

definition ex_track :: "string \<Rightarrow> int \<Rightarrow> string \<Rightarrow> string \<Rightarrow> string \<Rightarrow> string \<Rightarrow> audio_track" where
  "ex_track path i lang codec rate sz =
     \<lparr>File = path, FullFilePath = path, Track = i, Language = lang, Format = codec,
      Channels = 2, Bitrate = rate, Title = [], Size = sz\<rparr>"

text \<open>A remux tool that exits with the given status and leaves the given file behind.\<close>

definition ex_remux :: "int \<Rightarrow> string \<Rightarrow> nat option \<Rightarrow> remux" where
  "ex_remux status temp_path written cmd fs = (status, fs(temp_path := written))"

definition ex_disk :: "string \<Rightarrow> filesystem" where
  "ex_disk p = [p \<mapsto> 100]"

definition ex_state :: "string \<Rightarrow> string list \<Rightarrow> run_state" where
  "ex_state p lines =
     \<lparr>files = ex_disk p, total_space_saved = 0, stdin = lines, printed = [], raised = None\<rparr>"

definition ex_movie_d :: movie_data where
  "ex_movie_d = \<lparr>md_File = ''d {tmdb-603}.mkv'', md_FullFilePath = ''/m/d {tmdb-603}.mkv'',
                  md_original_language = Some (Some ''eng'')\<rparr>"

definition ex_tracks_d :: "audio_track list" where
  "ex_tracks_d = [ex_track ''/m/d {tmdb-603}.mkv'' 2 ''fre'' ''aac'' ''~96 Kbps'' ''0.69 MB'',
                  ex_track ''/m/d {tmdb-603}.mkv'' 3 ''eng'' ''aac'' ''~96 Kbps'' ''0.69 MB'']"

text \<open>
  The scenario of the specification: tracks 1 (eng), 2 (fre), 3 (eng) of a film whose
  original language is English, and a second file whose language was not resolved.
\<close>

definition ex_tracks_plan :: "audio_track list" where
  "ex_tracks_plan =
     [ex_track ''/m/e {tmdb-1}.mkv'' 1 ''eng'' ''aac'' ''N/A'' ''N/A'',
      ex_track ''/m/e {tmdb-1}.mkv'' 2 ''fre'' ''aac'' ''N/A'' ''N/A'',
      ex_track ''/m/e {tmdb-1}.mkv'' 3 ''eng'' ''aac'' ''N/A'' ''N/A'',
      ex_track ''/m/f {tmdb-2}.mkv'' 1 ''ger'' ''aac'' ''N/A'' ''N/A'']"

definition ex_movies_plan :: "movie_data list" where
  "ex_movies_plan =
     [\<lparr>md_File = ''e {tmdb-1}.mkv'', md_FullFilePath = ''/m/e {tmdb-1}.mkv'',
       md_original_language = Some (Some ''eng'')\<rparr>,
      \<lparr>md_File = ''f {tmdb-2}.mkv'', md_FullFilePath = ''/m/f {tmdb-2}.mkv'',
       md_original_language = Some None\<rparr>]"

definition ex_plan :: file_summary where
  "ex_plan = \<lparr>file_name = ''e {tmdb-1}.mkv'', original_language = Some ''eng'',
               tracks_to_delete = [''2(fre)''], tracks_to_keep = [''1(eng)'', ''3(eng)'']\<rparr>"

text \<open>
  Two files with the same base name in two directories, both of a film whose original
  language is English: the first has one French track, the second a French and an
  English one. Each is 100 bytes on disk, and the remux succeeds and leaves 60 bytes.
\<close>

definition ex_streams_m_a :: "stream list" where
  "ex_streams_m_a = [ex_video, ex_audio 1 ''aac'' None (Some ''fre'')]"

definition ex_streams_m_b :: "stream list" where
  "ex_streams_m_b = [ex_video, ex_audio 1 ''aac'' None (Some ''fre''),
                     ex_audio 2 ''aac'' None (Some ''eng'')]"

definition ex_probe_same_name :: probe where
  "ex_probe_same_name p =
     (if p = ''/a/M {tmdb-1}.mkv''
        then Inr \<lparr>streams = Some ex_streams_m_a, duration = Inr 60\<rparr>
      else if p = ''/b/M {tmdb-1}.mkv''
        then Inr \<lparr>streams = Some ex_streams_m_b, duration = Inr 60\<rparr>
      else Inl (ProbeError ''ffprobe returned non-zero exit status 1''))"

definition ex_tracks_same_name :: "audio_track list" where
  "ex_tracks_same_name =
     [ex_track ''/a/M {tmdb-1}.mkv'' 1 ''fre'' ''aac'' ''~96 Kbps'' ''0.69 MB'',
      ex_track ''/b/M {tmdb-1}.mkv'' 1 ''fre'' ''aac'' ''~96 Kbps'' ''0.69 MB'',
      ex_track ''/b/M {tmdb-1}.mkv'' 2 ''eng'' ''aac'' ''~96 Kbps'' ''0.69 MB'']"

definition ex_movie_m_a :: movie_data where
  "ex_movie_m_a = \<lparr>md_File = ''M {tmdb-1}.mkv'', md_FullFilePath = ''/a/M {tmdb-1}.mkv'',
                    md_original_language = Some (Some ''eng'')\<rparr>"

definition ex_movie_m_b :: movie_data where
  "ex_movie_m_b = \<lparr>md_File = ''M {tmdb-1}.mkv'', md_FullFilePath = ''/b/M {tmdb-1}.mkv'',
                    md_original_language = Some (Some ''eng'')\<rparr>"

definition ex_plan_m_b :: file_summary where
  "ex_plan_m_b = \<lparr>file_name = ''M {tmdb-1}.mkv'', original_language = Some ''eng'',
                   tracks_to_delete = [''1(fre)''], tracks_to_keep = [''2(eng)'']\<rparr>"

definition ex_same_name_run :: run_state where
  "ex_same_name_run =
     tmdb_delete_track (ex_remux 0 ''/a/M {tmdb-1}_temp.mkv'' (Some 60))
       [ex_movie_m_a, ex_movie_m_b] ex_tracks_same_name ''/usr/bin''
       \<lparr>files = [''/a/M {tmdb-1}.mkv'' \<mapsto> 100, ''/b/M {tmdb-1}.mkv'' \<mapsto> 100],
        total_space_saved = 0, stdin = [''y''], printed = [], raised = None\<rparr>"

text \<open>The dictionary handed to the manual deletion: one file, two tracks.\<close>

definition ex_manual_tracks :: "(string \<times> audio_track list) list" where
  "ex_manual_tracks =
     [(''a.mkv'',
       [(ex_track ''/m/a.mkv'' 1 ''fre'' ''aac'' ''~96 Kbps'' ''41.20 MB'')\<lparr>File := ''a.mkv''\<rparr>,
        (ex_track ''/m/a.mkv'' 2 ''ENG'' ''ac3'' ''640 Kbps'' ''274.66 MB'')\<lparr>File := ''a.mkv''\<rparr>])]"


text \<open>
  Runs of the two deletion paths on these inputs, with a remux that fails (exit status 1)
  and leaves a truncated output of 10 bytes, one that fails and leaves no output, and one
  that succeeds with an output of 60 bytes.
\<close>

definition ex_manual_failed_run :: run_state where
  "ex_manual_failed_run =
     delete_tracks_from_files (ex_remux 1 ''/m/a_temp.mkv'' (Some 10)) ex_manual_tracks
       ''/usr/bin'' (ex_state ''/m/a.mkv'' [''2''])"

definition ex_tmdb_failed_run :: run_state where
  "ex_tmdb_failed_run =
     tmdb_delete_track (ex_remux 1 ''/m/d {tmdb-603}_temp.mkv'' (Some 10)) [ex_movie_d]
       ex_tracks_d ''/usr/bin'' (ex_state ''/m/d {tmdb-603}.mkv'' [''y''])"

definition ex_tmdb_no_output_run :: run_state where
  "ex_tmdb_no_output_run =
     tmdb_delete_track (ex_remux 1 ''/m/d {tmdb-603}_temp.mkv'' None) [ex_movie_d]
       ex_tracks_d ''/usr/bin'' (ex_state ''/m/d {tmdb-603}.mkv'' [''y''])"

definition ex_tmdb_ok_run :: run_state where
  "ex_tmdb_ok_run =
     tmdb_delete_track (ex_remux 0 ''/m/d {tmdb-603}_temp.mkv'' (Some 60)) [ex_movie_d]
       ex_tracks_d ''/usr/bin'' (ex_state ''/m/d {tmdb-603}.mkv'' [''y''])"

definition ex_manual_ok_remux :: remux where
  "ex_manual_ok_remux = ex_remux 0 ''/m/a_temp.mkv'' (Some 60)"

section \<open>Integers and their decimal strings\<close>

text \<open>
  \<^verbatim>\<open>int\<close> reads every non-empty string of decimal digits, and it reads back what \<^verbatim>\<open>str\<close>
  wrote.
\<close>

lemma digit_not_space: "is_decimal_char c \<Longrightarrow> \<not> is_int_space_char c"
  by (auto simp: is_decimal_char_def is_int_space_char_def)

lemma digit_not_sign: "is_decimal_char c \<Longrightarrow> c \<noteq> CHR ''-'' \<and> c \<noteq> CHR ''+'' \<and> c \<noteq> CHR ''(''"
  by (auto simp: is_decimal_char_def)

lemma strip_digits:
  assumes "list_all is_decimal_char s"
  shows "strip s = s"
proof (cases s)
  case Nil
  then show ?thesis by (simp add: strip_def)
next
  case (Cons c cs)
  with assms have "\<not> is_int_space_char c" by (simp add: digit_not_space)
  with Cons have front: "dropWhile is_int_space_char s = s" by simp
  from Cons obtain ys z where snoc: "s = ys @ [z]" by (metis append_butlast_last_id list.distinct(1))
  with assms have "\<not> is_int_space_char z" by (simp add: digit_not_space)
  with snoc have "dropWhile is_int_space_char (rev s) = rev s" by simp
  with front show ?thesis by (simp add: strip_def)
qed

lemma digits_ok_all_digits:
  "list_all is_decimal_char s \<Longrightarrow> s \<noteq> [] \<Longrightarrow> digits_ok b s"
proof (induction s arbitrary: b)
  case Nil
  then show ?case by simp
next
  case (Cons c cs)
  then show ?case by (cases cs) auto
qed

lemma py_int_digits:
  assumes "list_all is_decimal_char s" and "s \<noteq> []"
  shows "py_int s = Some (digits_value s)"
proof -
  from assms(2) obtain c cs where s: "s = c # cs" by (cases s) auto
  with assms(1) have c: "is_decimal_char c" by simp
  from digits_ok_all_digits [OF assms] have ok: "digits_ok False s" .
  from strip_digits [OF assms(1)] s c ok digit_not_sign [OF c] show ?thesis
    by (simp add: py_int_def)
qed

lemma digit_char_table:
  "list_all (\<lambda>k. is_decimal_char (digit_char k) \<and> digit_val (digit_char k) = int k) [0..<10]"
  by code_simp

lemma digit_char_props:
  assumes "k < 10"
  shows "is_decimal_char (digit_char k)" and "digit_val (digit_char k) = int k"
  using assms digit_char_table by (simp_all add: list_all_iff)

lemma str_nat_digits: "list_all is_decimal_char (str_nat n) \<and> str_nat n \<noteq> []"
proof (induction n rule: str_nat.induct)
  case (1 n)
  show ?case
  proof (cases "n < 10")
    case True
    then show ?thesis by (subst str_nat.simps, subst str_nat.simps) (simp add: digit_char_props)
  next
    case False
    with "1.IH" show ?thesis
      by (subst str_nat.simps, subst str_nat.simps) (simp add: digit_char_props)
  qed
qed

lemma digits_value_snoc:
  "is_decimal_char c \<Longrightarrow> digits_value (s @ [c]) = 10 * digits_value s + digit_val c"
  by (simp add: digits_value_def)

lemma digits_value_str_nat: "digits_value (str_nat n) = int n"
proof (induction n rule: str_nat.induct)
  case (1 n)
  show ?case
  proof (cases "n < 10")
    case True
    then show ?thesis
      by (subst str_nat.simps) (simp add: digits_value_def digit_char_props)
  next
    case False
    have d: "is_decimal_char (digit_char (n mod 10))" by (simp add: digit_char_props)
    from False "1.IH" show ?thesis
      by (subst str_nat.simps) (simp add: digits_value_snoc [OF d] digit_char_props, arith)
  qed
qed

lemma py_int_str_int: "py_int (str_int i) = Some i"
proof (cases "i < 0")
  case False
  then show ?thesis
    using py_int_digits [of "str_nat (nat i)"] str_nat_digits [of "nat i"]
    by (simp add: str_int_def digits_value_str_nat)
next
  case True
  let ?s = "str_nat (nat (- i))"
  from str_nat_digits [of "nat (- i)"] have all: "list_all is_decimal_char ?s" and ne: "?s \<noteq> []"
    by simp_all
  have "\<not> is_int_space_char CHR ''-''" by (simp add: is_int_space_char_def)
  then have front: "dropWhile is_int_space_char (CHR ''-'' # ?s) = CHR ''-'' # ?s" by simp
  from ne obtain ys z where snoc: "?s = ys @ [z]" by (metis append_butlast_last_id)
  with all have "\<not> is_int_space_char z" by (simp add: digit_not_space)
  with snoc have "dropWhile is_int_space_char (rev (CHR ''-'' # ?s)) = rev (CHR ''-'' # ?s)" by simp
  with front have "strip (CHR ''-'' # ?s) = CHR ''-'' # ?s" by (simp add: strip_def)
  with True digits_ok_all_digits [OF all ne, of False] show ?thesis
    by (simp add: py_int_def str_int_def digits_value_str_nat)
qed

lemma py_int_white_space:
  "py_int [CHR 0x1C, CHR ''5''] = None"
  "py_int [CHR 0xA0, CHR ''7'', CHR 0xA0] = Some 7"
  "py_int '' 12 '' = Some 12"
  by code_simp+

section \<open>The extraction loop: accumulators and provenance of tracks\<close>





lemma audio_only_filter:
  "audio_only ss = Inr au \<Longrightarrow> au = filter (\<lambda>s. codec_type s = Some ''audio'') ss"
  by (induction ss arbitrary: au) (auto split: option.splits sum.splits if_splits)

lemma audio_stream_track_fields:
  assumes "audio_stream_track fmt a f d s = Inr (Some t)"
  shows "File t = f" and "FullFilePath t = f" and "Language t = tag_language ''unknown'' s"
    and "index s = Some (Track t)"
  using assms
  by (auto simp: audio_stream_track_def Let_def split: if_splits option.splits sum.splits prod.splits)

lemma stream_loop_tracks:
  "t \<in> set (fst (stream_loop fmt a f d ss acc)) \<Longrightarrow>
     t \<in> set acc \<or> (\<exists>s \<in> set ss. audio_stream_track fmt a f d s = Inr (Some t))"
proof (induction ss arbitrary: acc)
  case Nil
  then show ?case by simp
next
  case (Cons s ss)
  show ?case
  proof (cases "audio_stream_track fmt a f d s")
    case (Inl e)
    with Cons.prems show ?thesis by simp
  next
    case (Inr r)
    show ?thesis
    proof (cases r)
      case None
      with Inr Cons.prems Cons.IH [of acc] show ?thesis by auto
    next
      case (Some t')
      with Inr Cons.prems Cons.IH [of "acc @ [t']"] show ?thesis by auto
    qed
  qed
qed

lemma process_file_tracks:
  assumes "t \<in> set (fst (process_file fmt prb a f acc))" and "t \<notin> set acc"
  shows "\<exists>info ss d s. prb f = Inr info \<and> streams info = Some ss
           \<and> audio_only ss = Inr (filter (\<lambda>s. codec_type s = Some ''audio'') ss)
           \<and> duration info = Inr d
           \<and> s \<in> set ss \<and> codec_type s = Some ''audio''
           \<and> audio_stream_track fmt a f d s = Inr (Some t)
           \<and> (foreign_only a \<longrightarrow>
                 \<not> has_eng_track (filter (\<lambda>s. codec_type s = Some ''audio'') ss))"
proof (cases "prb f")
  case (Inl e)
  with assms show ?thesis by (simp add: process_file_def)
next
  case (Inr info)
  note info = this
  show ?thesis
  proof (cases "streams info")
    case None
    with info assms show ?thesis by (simp add: process_file_def)
  next
    case (Some ss)
    note ss = this
    show ?thesis
    proof (cases "audio_only ss")
      case (Inl e)
      with info ss assms show ?thesis by (simp add: process_file_def)
    next
      case (Inr au)
      note au = this
      have au_eq: "au = filter (\<lambda>s. codec_type s = Some ''audio'') ss"
        using au by (rule audio_only_filter)
      show ?thesis
      proof (cases "duration info")
        case (Inl e)
        with info ss au assms show ?thesis by (simp add: process_file_def)
      next
        case (Inr d)
        from assms info ss au Inr
        have in_loop: "t \<in> set (fst (stream_loop fmt a f d au acc))"
          and guard: "foreign_only a \<longrightarrow> \<not> has_eng_track au"
          by (auto simp: process_file_def split: if_splits)
        from stream_loop_tracks [OF in_loop] assms(2)
        obtain s where "s \<in> set au" "audio_stream_track fmt a f d s = Inr (Some t)" by auto
        with info ss au Inr guard au_eq show ?thesis by auto
      qed
    qed
  qed
qed

lemma files_loop_tracks:
  "t \<in> set (fst (files_loop fmt prb a fs (ts, es))) \<Longrightarrow> t \<notin> set ts \<Longrightarrow>
     \<exists>f \<in> set fs. \<exists>acc. t \<in> set (fst (process_file fmt prb a f acc)) \<and> t \<notin> set acc"
proof (induction fs arbitrary: ts es)
  case Nil
  then show ?case by simp
next
  case (Cons f fs)
  obtain ts' r where pf: "process_file fmt prb a f ts = (ts', r)" by (cases "process_file fmt prb a f ts")
  from Cons.prems(1) pf obtain es' where rest: "t \<in> set (fst (files_loop fmt prb a fs (ts', es')))"
    by (cases r) auto
  show ?case
  proof (cases "t \<in> set ts'")
    case True
    with pf Cons.prems(2) have "t \<in> set (fst (process_file fmt prb a f ts)) \<and> t \<notin> set ts" by simp
    then show ?thesis by auto
  next
    case False
    from Cons.IH [OF rest False] show ?thesis by auto
  qed
qed

lemma track_provenance:
  assumes "t \<in> set (fst (get_audio_track_info fmt prb a))"
  shows "\<exists>f \<in> set (movie_files a). \<exists>info ss d s. prb f = Inr info \<and> streams info = Some ss
           \<and> audio_only ss = Inr (filter (\<lambda>s. codec_type s = Some ''audio'') ss)
           \<and> duration info = Inr d
           \<and> s \<in> set ss \<and> codec_type s = Some ''audio''
           \<and> audio_stream_track fmt a f d s = Inr (Some t)
           \<and> (foreign_only a \<longrightarrow>
                 \<not> has_eng_track (filter (\<lambda>s. codec_type s = Some ''audio'') ss))"
proof -
  from assms have "t \<in> set (fst (files_loop fmt prb a (movie_files a) ([], [])))"
    by (simp add: get_audio_track_info_def)
  from files_loop_tracks [OF this]
  obtain f acc where f: "f \<in> set (movie_files a)"
    and t: "t \<in> set (fst (process_file fmt prb a f acc))" "t \<notin> set acc" by auto
  from process_file_tracks [OF t] f show ?thesis by blast
qed

section \<open>Probe failures\<close>

text \<open>
  A document without \<^verbatim>\<open>streams\<close>, with a stream without \<^verbatim>\<open>codec_type\<close>, or without a
  readable duration also leaves the track list as it was. An exception raised later, in
  the loop over the audio streams, leaves in the list the tracks of the streams before
  it: in the example the track of the first stream stays and the file is in the error
  list as well.
\<close>

lemma process_file_document_failure:
  assumes "prb f = Inr info"
  shows "streams info = None \<Longrightarrow>
           process_file fmt prb a f acc = (acc, Some (KeyError ''streams''))"
    and "streams info = Some ss \<Longrightarrow> audio_only ss = Inl e \<Longrightarrow>
           process_file fmt prb a f acc = (acc, Some e)"
    and "streams info = Some ss \<Longrightarrow> audio_only ss = Inr au \<Longrightarrow> duration info = Inl e \<Longrightarrow>
           process_file fmt prb a f acc = (acc, Some e)"
  using assms by (simp_all add: process_file_def)

lemma exception_in_stream_loop_keeps_earlier_tracks:
  "get_audio_track_info ex_size_format ex_probe (ex_args [''/m/p.mkv''])
     = ([ex_track ''/m/p.mkv'' 0 ''eng'' ''aac'' ''~96 Kbps'' ''0.69 MB''],
        [''Error processing /m/p.mkv: '' @ [CHR 0x27] @ ''channels'' @ [CHR 0x27]])"
  by code_simp



section \<open>The foreign-only filter\<close>

text \<open>
  Claim C4. With \<^verbatim>\<open>foreign_only\<close> enabled, no track of the result belongs to a file that
  has an audio stream whose language tag is \<^verbatim>\<open>eng\<close> in any casing: the test of line 53
  compares the tag as it is, the test of lines 58 and 67 compares it in lower case.
\<close>

theorem foreign_only_excludes_english_files:
  assumes "foreign_only a"
    and "prb f = Inr info" and "streams info = Some ss"
    and "s \<in> set ss" and "codec_type s = Some ''audio''"
    and "tags s = Some tg" and "language tg = Some l" and "lower l = ''eng''"
  shows "\<forall>t \<in> set (fst (get_audio_track_info fmt prb a)). FullFilePath t \<noteq> f"
proof
  fix t assume t: "t \<in> set (fst (get_audio_track_info fmt prb a))"
  show "FullFilePath t \<noteq> f"
  proof
    assume same: "FullFilePath t = f"
    from track_provenance [OF t] obtain f' info' ss' d s'
      where p: "prb f' = Inr info'" "streams info' = Some ss'"
        "audio_stream_track fmt a f' d s' = Inr (Some t)"
        "foreign_only a \<longrightarrow> \<not> has_eng_track (filter (\<lambda>s. codec_type s = Some ''audio'') ss')"
      by blast
    from audio_stream_track_fields(2) [OF p(3)] same have "f' = f" by simp
    with p assms have no_eng: "\<not> has_eng_track (filter (\<lambda>s. codec_type s = Some ''audio'') ss)"
      by simp
    have "lower (tag_language [] s) = ''eng''"
      using assms(6-8) by (simp add: tag_language_def)
    with assms(4,5) have "has_eng_track (filter (\<lambda>s. codec_type s = Some ''audio'') ss)"
      by (auto simp: has_eng_track_def list_ex_iff)
    with no_eng show False by simp
  qed
qed

theorem foreign_only_excludes_english_files_witness:
  "foreign_only ((ex_args [''/m/a.mkv'', ''/m/c.mkv''])\<lparr>foreign_only := True\<rparr>)
   \<and> ex_probe ''/m/a.mkv'' = Inr \<lparr>streams = Some ex_streams_a, duration = Inr 3600\<rparr>
   \<and> ex_audio 2 ''ac3'' (Some ''640000'') (Some ''ENG'') \<in> set ex_streams_a
   \<and> codec_type (ex_audio 2 ''ac3'' (Some ''640000'') (Some ''ENG'')) = Some ''audio''
   \<and> tags (ex_audio 2 ''ac3'' (Some ''640000'') (Some ''ENG''))
         = Some \<lparr>language = Some ''ENG'', title = None\<rparr>
   \<and> lower ''ENG'' = ''eng''
   \<and> ''/m/a.mkv'' \<notin> FullFilePath `
         set (fst (get_audio_track_info ex_size_format ex_probe
                    ((ex_args [''/m/a.mkv'', ''/m/c.mkv''])\<lparr>foreign_only := True\<rparr>)))"
proof -
  let ?a = "(ex_args [''/m/a.mkv'', ''/m/c.mkv''])\<lparr>foreign_only := True\<rparr>"
  let ?info = "\<lparr>streams = Some ex_streams_a, duration = Inr 3600\<rparr>"
  let ?s = "ex_audio 2 ''ac3'' (Some ''640000'') (Some ''ENG'')"
  let ?tg = "\<lparr>language = Some ''ENG'', title = None\<rparr>"
  have h1: "foreign_only ?a" by (simp add: ex_args_def)
  have h2: "ex_probe ''/m/a.mkv'' = Inr ?info" by (simp add: ex_probe_def)
  have h3: "streams ?info = Some ex_streams_a" by simp
  have h4: "?s \<in> set ex_streams_a" by (simp add: ex_streams_a_def)
  have h5: "codec_type ?s = Some ''audio''" by (simp add: ex_audio_def)
  have h6: "tags ?s = Some ?tg" by (simp add: ex_audio_def)
  have h7: "language ?tg = Some ''ENG''" by simp
  have h8: "lower ''ENG'' = ''eng''" by code_simp
  from foreign_only_excludes_english_files
         [where fmt = ex_size_format and prb = ex_probe and f = "''/m/a.mkv''", OF h1 h2 h3 h4 h5 h6 h7 h8]
  have "''/m/a.mkv'' \<notin> FullFilePath ` set (fst (get_audio_track_info ex_size_format ex_probe ?a))"
    by auto
  with h1 h2 h4 h5 h6 h8 show ?thesis by simp
qed

section \<open>Language, bitrate and size of an extracted track\<close>

text \<open>
  Claim C6, as the specification states it, fails: the \<open>Language\<close> of a track is the tag
  as probed, not its lower-case form. The stream tagged \<^verbatim>\<open>ENG\<close> yields a track whose
  language is \<^verbatim>\<open>ENG\<close>.
\<close>

theorem language_lower_case_counterexample:
  "audio_stream_track ex_size_format (ex_args [''/m/a.mkv'']) ''/m/a.mkv'' 3600
       (ex_audio 2 ''ac3'' (Some ''640000'') (Some ''ENG''))
     = Inr (Some (ex_track ''/m/a.mkv'' 2 ''ENG'' ''ac3'' ''640 Kbps'' ''274.66 MB''))
   \<and> tag_language ''unknown'' (ex_audio 2 ''ac3'' (Some ''640000'') (Some ''ENG'')) = ''ENG''
   \<and> Language (ex_track ''/m/a.mkv'' 2 ''ENG'' ''ac3'' ''640 Kbps'' ''274.66 MB'')
         \<noteq> lower ''ENG''"
  by code_simp

text \<open>
  Claim C6, amended. Every track of the result comes from an audio stream of its file,
  and its \<open>Language\<close> is that stream's \<^verbatim>\<open>language\<close> tag exactly as probed (the case is
  kept), or \<^verbatim>\<open>unknown\<close> when the stream has no tags or no \<^verbatim>\<open>language\<close> tag.
\<close>

theorem language_is_tag_as_probed:
  assumes "t \<in> set (fst (get_audio_track_info fmt prb a))"
  shows "\<exists>info ss s. prb (FullFilePath t) = Inr info \<and> streams info = Some ss
           \<and> s \<in> set ss \<and> codec_type s = Some ''audio'' \<and> index s = Some (Track t)
           \<and> Language t =
               (case tags s of
                  None \<Rightarrow> ''unknown''
                | Some tg \<Rightarrow> (case language tg of None \<Rightarrow> ''unknown'' | Some l \<Rightarrow> l))"
proof -
  from track_provenance [OF assms] obtain f info ss d s
    where p: "prb f = Inr info" "streams info = Some ss" "s \<in> set ss"
      "codec_type s = Some ''audio''" "audio_stream_track fmt a f d s = Inr (Some t)"
    by blast
  note fld = audio_stream_track_fields [OF p(5)]
  from fld(3) have "Language t =
      (case tags s of
         None \<Rightarrow> ''unknown''
       | Some tg \<Rightarrow> (case language tg of None \<Rightarrow> ''unknown'' | Some l \<Rightarrow> l))"
    by (simp add: tag_language_def)
  with p fld show ?thesis by auto
qed

theorem language_is_tag_as_probed_witness:
  "ex_track ''/m/a.mkv'' 2 ''ENG'' ''ac3'' ''640 Kbps'' ''274.66 MB''
     \<in> set (fst (get_audio_track_info ex_size_format ex_probe (ex_args [''/m/a.mkv''])))
   \<and> (\<exists>info ss s. ex_probe ''/m/a.mkv'' = Inr info \<and> streams info = Some ss
          \<and> s \<in> set ss \<and> codec_type s = Some ''audio'' \<and> index s = Some 2
          \<and> ''ENG'' =
               (case tags s of
                  None \<Rightarrow> ''unknown''
                | Some tg \<Rightarrow> (case language tg of None \<Rightarrow> ''unknown'' | Some l \<Rightarrow> l)))"
proof -
  let ?t = "ex_track ''/m/a.mkv'' 2 ''ENG'' ''ac3'' ''640 Kbps'' ''274.66 MB''"
  have h: "?t \<in> set (fst (get_audio_track_info ex_size_format ex_probe (ex_args [''/m/a.mkv''])))"
    by code_simp
  have f: "FullFilePath ?t = ''/m/a.mkv''" "Track ?t = 2" "Language ?t = ''ENG''"
    by (simp_all add: ex_track_def)
  from language_is_tag_as_probed [OF h] h show ?thesis
    unfolding f by simp
qed






section \<open>Automatic deletion planning\<close>

lemma partition_tracks_filter:
  "partition_tracks ol ts (to_delete, to_keep) =
     (to_delete @ map track_label (filter (\<lambda>t. Some (Language t) \<noteq> ol) ts),
      to_keep @ map track_label (filter (\<lambda>t. Some (Language t) = ol) ts))"
  by (induction ts arbitrary: to_delete to_keep) auto

lemma plan_loop_step:
  assumes "md_original_language md = Some ol"
  shows "plan_loop ats (md # mds) acc =
     (let fat = filter (\<lambda>t. File t = md_FullFilePath md) ats;
          keep = map track_label (filter (\<lambda>t. Some (Language t) = ol) fat);
          dl = map track_label (filter (\<lambda>t. Some (Language t) \<noteq> ol) fat)
      in if keep \<noteq> []
         then plan_loop ats mds
                (acc @ [\<lparr>file_name = md_File md, original_language = ol,
                         tracks_to_delete = dl, tracks_to_keep = keep\<rparr>])
         else plan_loop ats mds acc)"
  using assms by (simp add: partition_tracks_filter Let_def)

lemma plan_loop_acc:
  "plan_loop ats mds acc =
     (case plan_loop ats mds [] of Inl e \<Rightarrow> Inl e | Inr r \<Rightarrow> Inr (acc @ r))"
proof (induction mds arbitrary: acc)
  case Nil
  show ?case by simp
next
  case (Cons md mds)
  show ?case
  proof (cases "md_original_language md")
    case None
    then show ?thesis by simp
  next
    case (Some ol)
    note step = plan_loop_step [OF Some, of ats mds]
    show ?thesis
      unfolding step [of acc] step [of "[]"] Let_def
      using Cons.IH [of acc] Cons.IH [of "acc @ [x]" for x] Cons.IH [of "[x]" for x]
      by (simp split: sum.splits)
  qed
qed

lemma plan_loop_Cons:
  assumes "plan_loop ats (md # mds) [] = Inr summaries"
  shows "\<exists>ol r. md_original_language md = Some ol \<and> plan_loop ats mds [] = Inr r \<and>
       summaries =
         (let fat = filter (\<lambda>t. File t = md_FullFilePath md) ats;
              keep = map track_label (filter (\<lambda>t. Some (Language t) = ol) fat);
              dl = map track_label (filter (\<lambda>t. Some (Language t) \<noteq> ol) fat)
          in if keep \<noteq> []
             then \<lparr>file_name = md_File md, original_language = ol,
                    tracks_to_delete = dl, tracks_to_keep = keep\<rparr> # r
             else r)"
proof -
  from assms obtain ol where ol: "md_original_language md = Some ol"
    by (cases "md_original_language md") auto
  note step = plan_loop_step [OF ol, of ats mds "[]"]
  from assms show ?thesis
    unfolding step Let_def
    using ol plan_loop_acc [of ats mds "[x]" for x]
    by (auto split: sum.splits if_splits)
qed

lemma plan_loop_total:
  assumes "list_all (\<lambda>md. md_original_language md \<noteq> None) mds"
  shows "\<exists>summaries. plan_loop ats mds acc = Inr summaries"
  using assms
proof (induction mds arbitrary: acc)
  case Nil
  show ?case by simp
next
  case (Cons md mds)
  then obtain ol where ol: "md_original_language md = Some ol" by auto
  from Cons.prems have rest: "list_all (\<lambda>md. md_original_language md \<noteq> None) mds" by simp
  show ?case
    using ol Cons.IH [OF rest]
    by (simp add: Let_def split: prod.split)
qed

text \<open>
  What holds of the planning loop, lines 172 to 194. The plans that it emits correspond, in
  order, to the files that have at least one track in the resolved original language; each
  plan keeps exactly those tracks (so at least one) and deletes the others. A file whose
  tracks all differ from the original language, in particular one whose original language
  is \<^verbatim>\<open>None\<close>, has no plan.
\<close>

lemma automatic_plan_keeps_a_track:
  assumes "plan_loop audio_tracks movie_data_list [] = Inr summaries"
  shows "list_all2
           (\<lambda>s md. file_name s = md_File md
              \<and> md_original_language md = Some (original_language s)
              \<and> tracks_to_keep s \<noteq> []
              \<and> tracks_to_keep s =
                  map track_label
                    (filter (\<lambda>t. File t = md_FullFilePath md \<and> Some (Language t) = original_language s)
                       audio_tracks)
              \<and> tracks_to_delete s =
                  map track_label
                    (filter (\<lambda>t. File t = md_FullFilePath md \<and> Some (Language t) \<noteq> original_language s)
                       audio_tracks))
           summaries
           (filter (\<lambda>md. list_ex (\<lambda>t. File t = md_FullFilePath md
                                    \<and> md_original_language md = Some (Some (Language t)))
                          audio_tracks)
              movie_data_list)"
  using assms
proof (induction movie_data_list arbitrary: summaries)
  case Nil
  then show ?case by simp
next
  case (Cons md mds)
  from plan_loop_Cons [OF Cons.prems] obtain ol r
    where ol: "md_original_language md = Some ol" and r: "plan_loop audio_tracks mds [] = Inr r"
      and summaries: "summaries =
         (let fat = filter (\<lambda>t. File t = md_FullFilePath md) audio_tracks;
              keep = map track_label (filter (\<lambda>t. Some (Language t) = ol) fat);
              dl = map track_label (filter (\<lambda>t. Some (Language t) \<noteq> ol) fat)
          in if keep \<noteq> []
             then \<lparr>file_name = md_File md, original_language = ol,
                    tracks_to_delete = dl, tracks_to_keep = keep\<rparr> # r
             else r)"
    by blast
  note IH = Cons.IH [OF r]
  have keep_iff: "(filter (\<lambda>t. Some (Language t) = ol) (filter (\<lambda>t. File t = md_FullFilePath md) audio_tracks) \<noteq> [])
      = list_ex (\<lambda>t. File t = md_FullFilePath md \<and> md_original_language md = Some (Some (Language t))) audio_tracks"
    using ol by (auto simp: list_ex_iff filter_empty_conv)
  show ?case
    using IH ol keep_iff unfolding summaries Let_def
    by (auto simp: conj_commute)
qed

lemma automatic_plan_keeps_a_track_example:
  "plan_loop ex_tracks_plan ex_movies_plan [] = Inr [ex_plan]
   \<and> tracks_to_keep ex_plan = [''1(eng)'', ''3(eng)'']
   \<and> tracks_to_delete ex_plan = [''2(fre)'']
   \<and> list_all2
         (\<lambda>s md. file_name s = md_File md
            \<and> md_original_language md = Some (original_language s)
            \<and> tracks_to_keep s \<noteq> []
            \<and> tracks_to_keep s =
                map track_label
                  (filter (\<lambda>t. File t = md_FullFilePath md \<and> Some (Language t) = original_language s)
                     ex_tracks_plan)
            \<and> tracks_to_delete s =
                map track_label
                  (filter (\<lambda>t. File t = md_FullFilePath md \<and> Some (Language t) \<noteq> original_language s)
                     ex_tracks_plan))
         [ex_plan]
         (filter (\<lambda>md. list_ex (\<lambda>t. File t = md_FullFilePath md
                                  \<and> md_original_language md = Some (Some (Language t)))
                        ex_tracks_plan)
            ex_movies_plan)"
proof -
  have h: "plan_loop ex_tracks_plan ex_movies_plan [] = Inr [ex_plan]"
    by code_simp
  from automatic_plan_keeps_a_track [OF h] h show ?thesis
    by (simp add: ex_plan_def)
qed

text \<open>
  Claim C3 does not hold of the code. Planning selects the tracks of a file by its full
  path (line 179), execution selects them by its base name (line 215) and takes the path
  of the first one (line 217). With two files of the same base name, the first with one
  French track and the second with a French and an English one, the first file has no
  plan and the plan of the second deletes its track 1. That plan is executed on the first
  file: the remux is given the first file with the exclusion of audio stream 0, its only
  audio track, and the result replaces it, while the second file is left as it was.
\<close>

theorem plan_is_executed_on_file_without_plan:
  "fst (get_audio_track_info ex_size_format ex_probe_same_name
          (ex_args [''/a/M {tmdb-1}.mkv'', ''/b/M {tmdb-1}.mkv''])) = ex_tracks_same_name
   \<and> plan_loop ex_tracks_same_name [ex_movie_m_a] [] = Inr []
   \<and> plan_loop ex_tracks_same_name [ex_movie_m_b] [] = Inr [ex_plan_m_b]
   \<and> plan_loop ex_tracks_same_name [ex_movie_m_a, ex_movie_m_b] [] = Inr [ex_plan_m_b]
   \<and> filter (\<lambda>s. codec_type s = Some ''audio'') ex_streams_m_a
       = [ex_audio 1 ''aac'' None (Some ''fre'')]
   \<and> spec_audio_ordinal ex_streams_m_a 1 = Some 0
   \<and> printed ex_same_name_run
       = [PlanShown 1 ex_plan_m_b, Applying ''M {tmdb-1}.mkv'', DeletingTracks,
          Executing (dq @ ''/usr/bin/ffmpeg'' @ dq @ '' -i '' @ dq @ ''/a/M {tmdb-1}.mkv'' @ dq
                       @ '' -map 0 -map -0:a:0 -c copy '' @ dq @ ''/a/M {tmdb-1}_temp.mkv'' @ dq),
          DeletedSuccessfully 40, TotalSpaceSaved 40, Done]
   \<and> raised ex_same_name_run = None
   \<and> files ex_same_name_run ''/a/M {tmdb-1}.mkv'' = Some 60
   \<and> files ex_same_name_run ''/b/M {tmdb-1}.mkv'' = Some 100"
  by code_simp

section \<open>Manual selection\<close>

text \<open>
  What holds of the validation of line 391. Unless \<^verbatim>\<open>int\<close> raises, a selection that
  contains the token \<^verbatim>\<open>s\<close> passes whatever its other tokens are, and the file is then
  skipped: the loop goes to the next file with the disk and the total unchanged and the
  remux never called. \<^verbatim>\<open>int\<close> does not raise when every token that \<^verbatim>\<open>isdigit\<close> accepts
  consists of decimal digits. The empty selection passes too, yields no exclusion, and
  the file is remuxed with a command whose map options are empty.
\<close>

lemma all_valid_tracks_decimal:
  "list_all (\<lambda>track. isdigit track \<longrightarrow> list_all is_decimal_char track) selected \<Longrightarrow>
     \<exists>all_ok. all_valid_tracks valid_tracks selected = Inr all_ok"
proof (induction selected)
  case Nil
  show ?case by auto
next
  case (Cons track rest)
  show ?case
  proof (cases "isdigit track")
    case False
    then show ?thesis by auto
  next
    case True
    with Cons.prems have "list_all is_decimal_char track" and "track \<noteq> []"
      by (simp_all add: isdigit_def)
    then have "py_int track = Some (digits_value track)" by (rule py_int_digits)
    with True Cons show ?thesis by auto
  qed
qed

lemma skip_token_passes_validation:
  assumes "''s'' \<in> set selected"
  shows "valid_selection valid_tracks selected = Inr True
           \<or> (\<exists>e. all_valid_tracks valid_tracks selected = Inl e
                    \<and> valid_selection valid_tracks selected = Inl e)"
  using assms by (cases "all_valid_tracks valid_tracks selected") (simp_all add: valid_selection_def)

lemma skip_token_skips_file:
  assumes "''s'' \<in> set (split_ws line)"
    and "valid_selection (map Track file_audio_tracks) (split_ws line) = Inr True"
  shows "manual_loop rmx ffmpeg_folder n idx ((file_key, file_audio_tracks) # rest)
             (st\<lparr>stdin := line # remaining\<rparr>)
           = manual_loop rmx ffmpeg_folder n (idx + 1) rest
               (emit [TableShown, FileSkipped] (st\<lparr>stdin := remaining\<rparr>))"
  using assms by (simp add: emit_def)

lemma empty_selection_is_remuxed:
  assumes "split_ws line = []"
  shows "valid_selection valid_tracks [] = Inr True"
    and "manual_map_parts [] = Inr []"
    and "manual_loop rmx ffmpeg_folder n idx ((file_key, trk # others) # rest)
             (st\<lparr>stdin := line # remaining\<rparr>)
           = (let input_file_path = FullFilePath trk;
                  temp_path = temp_output_file_path input_file_path;
                  ffmpeg_cmd = ffmpeg_command ffmpeg_folder input_file_path [] temp_path;
                  st2 = manual_run_remux rmx ffmpeg_cmd input_file_path temp_path
                          (emit [TableShown, DeletingTracks, Executing ffmpeg_cmd]
                             (st\<lparr>stdin := remaining\<rparr>))
              in if raised st2 \<noteq> None then st2
                 else if idx = n - 1 then st2
                 else
                   (case stdin st2 of
                      [] \<Rightarrow> raise EOFError st2
                    | proceed # remaining2 \<Rightarrow>
                        if lower proceed = ''n'' then st2\<lparr>stdin := remaining2\<rparr>
                        else manual_loop rmx ffmpeg_folder n (idx + 1) rest
                               (st2\<lparr>stdin := remaining2\<rparr>)))"
proof -
  show v: "valid_selection valid_tracks [] = Inr True" for valid_tracks
    by (simp add: valid_selection_def)
  show "manual_map_parts [] = Inr []" by simp
  from assms v [of "map Track (trk # others)"]
  show "manual_loop rmx ffmpeg_folder n idx ((file_key, trk # others) # rest)
             (st\<lparr>stdin := line # remaining\<rparr>)
           = (let input_file_path = FullFilePath trk;
                  temp_path = temp_output_file_path input_file_path;
                  ffmpeg_cmd = ffmpeg_command ffmpeg_folder input_file_path [] temp_path;
                  st2 = manual_run_remux rmx ffmpeg_cmd input_file_path temp_path
                          (emit [TableShown, DeletingTracks, Executing ffmpeg_cmd]
                             (st\<lparr>stdin := remaining\<rparr>))
              in if raised st2 \<noteq> None then st2
                 else if idx = n - 1 then st2
                 else
                   (case stdin st2 of
                      [] \<Rightarrow> raise EOFError st2
                    | proceed # remaining2 \<Rightarrow>
                        if lower proceed = ''n'' then st2\<lparr>stdin := remaining2\<rparr>
                        else manual_loop rmx ffmpeg_folder n (idx + 1) rest
                               (st2\<lparr>stdin := remaining2\<rparr>)))"
    by (simp add: emit_def manual_apply_def Let_def split: list.split)
qed

text \<open>
  Claim C10 does not hold of the code for every input. \<^verbatim>\<open>str.isdigit\<close> accepts the
  superscript digits and \<^verbatim>\<open>int\<close> raises \<^verbatim>\<open>ValueError\<close> on them: when the line typed is a
  superscript two followed by \<^verbatim>\<open>s\<close>, the test of line 391 raises before it looks for the
  token \<^verbatim>\<open>s\<close>, nothing catches the exception, and the run ends there instead of skipping
  the file. With the tokens in the other order, or after a token that \<^verbatim>\<open>isdigit\<close> rejects,
  the same selection passes, and so do the selections of ordinary characters.
\<close>

theorem skip_token_after_superscript_digit_raises:
  "split_ws [CHR 0xB2, CHR '' '', CHR ''s''] = [[CHR 0xB2], ''s'']
   \<and> isdigit [CHR 0xB2]
   \<and> py_int [CHR 0xB2] = None
   \<and> valid_selection [1, 2] [[CHR 0xB2], ''s''] = Inl (int_value_error [CHR 0xB2])
   \<and> raised (delete_tracks_from_files ex_manual_ok_remux ex_manual_tracks ''/usr/bin''
               (ex_state ''/m/a.mkv'' [[CHR 0xB2, CHR '' '', CHR ''s'']]))
       = Some (int_value_error [CHR 0xB2])
   \<and> printed (delete_tracks_from_files ex_manual_ok_remux ex_manual_tracks ''/usr/bin''
                (ex_state ''/m/a.mkv'' [[CHR 0xB2, CHR '' '', CHR ''s'']]))
       = [TableShown]
   \<and> valid_selection [1, 2] [''s'', [CHR 0xB2]] = Inr True
   \<and> valid_selection [1, 2] [''7'', ''x'', [CHR 0xB2], ''s''] = Inr True
   \<and> printed (delete_tracks_from_files ex_manual_ok_remux ex_manual_tracks ''/usr/bin''
                (ex_state ''/m/a.mkv'' [''7 s x'']))
       = [TableShown, FileSkipped, TotalSpaceSaved 0]
   \<and> files (delete_tracks_from_files ex_manual_ok_remux ex_manual_tracks ''/usr/bin''
              (ex_state ''/m/a.mkv'' [''7 s x''])) ''/m/a.mkv''
       = Some 100
   \<and> printed (delete_tracks_from_files ex_manual_ok_remux ex_manual_tracks ''/usr/bin''
                (ex_state ''/m/a.mkv'' ['' '']))
       = [TableShown, DeletingTracks,
          Executing (dq @ ''/usr/bin/ffmpeg'' @ dq @ '' -i '' @ dq @ ''/m/a.mkv'' @ dq
                       @ '' -map 0  -c copy '' @ dq @ ''/m/a_temp.mkv'' @ dq),
          DeletedSuccessfully 40, TotalSpaceSaved 40]"
  by code_simp

section \<open>Failed remux invocations\<close>

text \<open>
  What the two paths do once the remux has returned and both files exist. The
  metadata-driven path replaces the original only after exit status 0 and removes the
  temporary file otherwise, but counts and reports the size delta in both cases; the
  manual path replaces the original whatever the exit status is.
\<close>

lemma tmdb_run_remux_outcome:
  assumes "rmx ffmpeg_cmd (files st) = (returncode, fs1)"
    and "fs1 input_file_path = Some initial_size" and "fs1 temp_path = Some final_size"
    and "input_file_path \<noteq> temp_path"
  shows "tmdb_run_remux rmx summary_name ffmpeg_cmd input_file_path temp_path st =
           (if returncode = 0
            then st\<lparr>files := (fs1(temp_path := None))(input_file_path \<mapsto> final_size),
                    total_space_saved :=
                      total_space_saved st + (int initial_size - int final_size),
                    printed := printed st
                      @ [DeletedSuccessfully (int initial_size - int final_size)]\<rparr>
            else st\<lparr>files := fs1(temp_path := None),
                    total_space_saved :=
                      total_space_saved st + (int initial_size - int final_size),
                    printed := printed st
                      @ [DeletedSuccessfully (int initial_size - int final_size),
                         ErrorSkippingFile summary_name]\<rparr>)"
proof -
  have swap: "(fs1(input_file_path := None, temp_path := None))(input_file_path \<mapsto> final_size)
                = (fs1(temp_path := None))(input_file_path \<mapsto> final_size)"
    by (rule ext) simp
  show ?thesis
    using assms swap
    by (simp add: tmdb_run_remux_def getsize_def os_remove_def os_rename_def emit_def Let_def)
qed

lemma manual_run_remux_outcome:
  assumes "rmx ffmpeg_cmd (files st) = (returncode, fs1)"
    and "fs1 input_file_path = Some initial_size" and "fs1 temp_path = Some final_size"
    and "input_file_path \<noteq> temp_path"
  shows "manual_run_remux rmx ffmpeg_cmd input_file_path temp_path st =
           st\<lparr>files := (fs1(temp_path := None))(input_file_path \<mapsto> final_size),
              total_space_saved := total_space_saved st + (int initial_size - int final_size),
              printed := printed st @ [DeletedSuccessfully (int initial_size - int final_size)]\<rparr>"
proof -
  have swap: "(fs1(input_file_path := None, temp_path := None))(input_file_path \<mapsto> final_size)
                = (fs1(temp_path := None))(input_file_path \<mapsto> final_size)"
    by (rule ext) simp
  show ?thesis
    using assms swap
    by (simp add: manual_run_remux_def getsize_def os_remove_def os_rename_def emit_def Let_def)
qed

text \<open>
  Claim C1 does not hold of the code. In the manual path (lines 410 to 421) the exit
  status is never read: after a remux that exits with status 1 and leaves a truncated
  output of 10 bytes, the original of 100 bytes is removed and the truncated file takes
  its place, nothing reports a failure, and the run ends normally. In the metadata-driven
  path the status is read (line 236), but the sizes are measured first (lines 228 to
  229): when the failed remux leaves no output, \<^verbatim>\<open>os.path.getsize\<close> raises and the run ends
  there instead of going on with the next plan.
\<close>

theorem manual_path_replaces_original_after_failed_remux:
  "files ex_manual_failed_run ''/m/a.mkv'' = Some 10
   \<and> files ex_manual_failed_run ''/m/a_temp.mkv'' = None
   \<and> raised ex_manual_failed_run = None
   \<and> printed ex_manual_failed_run
       = [TableShown, DeletingTracks,
          Executing (dq @ ''/usr/bin/ffmpeg'' @ dq @ '' -i '' @ dq @ ''/m/a.mkv'' @ dq
                       @ '' -map 0 -map -0:a:1 -c copy '' @ dq @ ''/m/a_temp.mkv'' @ dq),
          DeletedSuccessfully 90, TotalSpaceSaved 90]
   \<and> raised ex_tmdb_no_output_run = Some (FileNotFoundError ''/m/d {tmdb-603}_temp.mkv'')
   \<and> files ex_tmdb_no_output_run ''/m/d {tmdb-603}.mkv'' = Some 100"
  by code_simp

text \<open>
  Claim C5 does not hold of the code. In the metadata-driven path the size delta is
  added to the total and reported as a successful deletion before the exit status is
  read: after a remux that exits with status 1 and leaves 10 bytes, the original of 100
  bytes is kept, yet 90 bytes are reported as saved by a successful deletion and the
  total of the run is 90. The manual path counts the failed remux in the same way.
\<close>

theorem failed_remux_is_counted_as_space_saved:
  "total_space_saved ex_tmdb_failed_run = 90
   \<and> printed ex_tmdb_failed_run
       = [PlanShown 1 \<lparr>file_name = ''d {tmdb-603}.mkv'', original_language = Some ''eng'',
                        tracks_to_delete = [''2(fre)''], tracks_to_keep = [''3(eng)'']\<rparr>,
          Applying ''d {tmdb-603}.mkv'', DeletingTracks,
          Executing (dq @ ''/usr/bin/ffmpeg'' @ dq @ '' -i '' @ dq @ ''/m/d {tmdb-603}.mkv'' @ dq
                       @ '' -map 0 -map -0:a:1 -c copy '' @ dq @ ''/m/d {tmdb-603}_temp.mkv'' @ dq),
          DeletedSuccessfully 90, ErrorSkippingFile ''d {tmdb-603}.mkv'',
          TotalSpaceSaved 90, Done]
   \<and> files ex_tmdb_failed_run ''/m/d {tmdb-603}.mkv'' = Some 100
   \<and> files ex_tmdb_failed_run ''/m/d {tmdb-603}_temp.mkv'' = None
   \<and> total_space_saved ex_manual_failed_run = 90"
  by code_simp

section \<open>The stream-selection directive\<close>

text \<open>
  In both paths the number of an exclusion is the \<open>Track\<close> of the track minus one: the
  metadata-driven path reads it back from the label of the plan, the manual path from the
  token that the user typed and that the validation compared with the \<open>Track\<close> values.
\<close>

lemma before_paren_track_label: "before_paren (track_label t) = str_int (Track t)"
proof -
  have "CHR ''('' \<notin> set (str_nat n)" for n
    using str_nat_digits [of n] digit_not_sign by (auto simp: list_all_iff)
  then have "CHR ''('' \<notin> set (str_int (Track t))" by (simp add: str_int_def)
  then have "takeWhile (\<lambda>c. c \<noteq> CHR ''('') (str_int (Track t) @ CHR ''('' # Language t @ '')'')
               = str_int (Track t)"
    by (subst takeWhile_append2) auto
  then show ?thesis
    by (simp add: before_paren_def track_label_def)
qed

lemma tmdb_map_parts_labels:
  "tmdb_map_parts (map track_label ts)
     = Inr (map (\<lambda>t. ''-map -0:a:'' @ str_int (Track t - 1)) ts)"
  by (induction ts) (simp_all add: before_paren_track_label py_int_str_int)

lemma manual_map_parts_valid:
  "list_all (\<lambda>track. track \<noteq> [] \<and> list_all is_decimal_char track) selected \<Longrightarrow>
     manual_map_parts selected
       = Inr (map (\<lambda>track. ''-map -0:a:'' @ str_int (digits_value track - 1)) selected)"
  by (induction selected) (simp_all add: py_int_digits)

text \<open>
  Claim C2 does not hold of the code. The exclusion is the \<open>Track\<close> of the track minus
  one, and \<open>Track\<close> is the container index of the stream (line 102). In a file whose
  streams are video, subtitle, French audio (index 2) and English audio (index 3), with
  English the original language, the track to delete is the French one, whose position
  among the audio streams is 0; the directive excludes audio stream 1, the position of
  the English track. The manual path computes the exclusion in the same way.
\<close>

theorem exclusion_uses_container_index:
  "fst (get_audio_track_info ex_size_format ex_probe (ex_args [''/m/d {tmdb-603}.mkv''])) = ex_tracks_d
   \<and> plan_loop ex_tracks_d [ex_movie_d] []
       = Inr [\<lparr>file_name = ''d {tmdb-603}.mkv'', original_language = Some ''eng'',
                tracks_to_delete = [''2(fre)''], tracks_to_keep = [''3(eng)'']\<rparr>]
   \<and> tmdb_map_parts [''2(fre)''] = Inr [''-map -0:a:1'']
   \<and> manual_map_parts [''2''] = Inr [''-map -0:a:1'']
   \<and> spec_audio_ordinal ex_streams_d 2 = Some 0
   \<and> spec_audio_ordinal ex_streams_d 3 = Some 1
   \<and> printed ex_tmdb_ok_run
       = [PlanShown 1 \<lparr>file_name = ''d {tmdb-603}.mkv'', original_language = Some ''eng'',
                        tracks_to_delete = [''2(fre)''], tracks_to_keep = [''3(eng)'']\<rparr>,
          Applying ''d {tmdb-603}.mkv'', DeletingTracks,
          Executing (dq @ ''/usr/bin/ffmpeg'' @ dq @ '' -i '' @ dq @ ''/m/d {tmdb-603}.mkv'' @ dq
                       @ '' -map 0 -map -0:a:1 -c copy '' @ dq @ ''/m/d {tmdb-603}_temp.mkv'' @ dq),
          DeletedSuccessfully 40, TotalSpaceSaved 40, Done]"
  by code_simp

section \<open>Files whose tracks are all in one language\<close>

text \<open>
  Claim C8 does not hold of the code. Line 60 reads a missing \<^verbatim>\<open>language\<close> tag as the empty
  string, line 69 reads it as \<^verbatim>\<open>unknown\<close>. A file with an untagged audio stream and one
  tagged \<^verbatim>\<open>unknown\<close> yields two tracks whose language is \<^verbatim>\<open>unknown\<close>, so the set of its
  language codes has one element, yet the file is not classified as all-same-language and
  \<^verbatim>\<open>only_same\<close> drops it.
\<close>

theorem untagged_and_unknown_not_all_same:
  "audio_only ex_streams_u = Inr ex_streams_u
   \<and> card (set (map spec_language_code ex_streams_u)) = 1
   \<and> all_same_language ex_streams_u = False
   \<and> map Language (fst (get_audio_track_info ex_size_format ex_probe (ex_args [''/m/u.mkv'']))) =
        [''unknown'', ''unknown'']
   \<and> fst (get_audio_track_info ex_size_format ex_probe ((ex_args [''/m/u.mkv''])\<lparr>only_same := True\<rparr>)) = []
   \<and> all_same_language [ex_audio 1 ''flac'' None (Some ''unknown'')] = True"
  by code_simp

end
